theory Spec2Isabelle
  imports Main "HOL-Library.Sublist"
begin

section \<open>Values, outcomes and the world outside the program\<close>

text \<open>
  Python strings are modelled as \<^typ>\<open>string\<close>: one \<^typ>\<open>char\<close> per code point, so the
  model covers text whose code points lie below 256. The values \<open>json.loads\<close> produces
  are the type \<open>json\<close>; a number keeps its lexeme, an object is an association list in
  insertion order.
\<close>

datatype json =
    JNull
  | JBool bool
  | JNum string
  | JStr string
  | JArr "json list"
  | JObj "(string \<times> json) list"

text \<open>
  A call of the source returns a value or raises. \<open>Unmodelled\<close> marks the inputs on which
  the model says nothing.
\<close>

datatype py_exn = JSONDecodeError

datatype 'a outcome = Returned 'a | Raised py_exn | Unmodelled

text \<open>What a call of the generation service does: it answers, or it raises.\<close>

datatype provider_outcome =
    Generated string
  | ResourceExhausted
  | ProviderError string

datatype smtp_outcome =
    Delivered
  | SMTPAuthenticationError
  | SMTPError string

datatype 'a attempt = Yields 'a | Throws string

record email =
  msg_from :: string
  msg_to :: string
  msg_subject :: string
  msg_body :: string
  msg_attachment :: "(string option \<times> string) option"

text \<open>
  Every interaction with the outside is appended to a trace: the notifications shown to
  the user, the clock readings, the calls of the generation service, the blocking waits
  and the mail submissions. Calls that only lay out the page are left out.
\<close>

datatype effect =
    St_warning string
  | St_error string
  | St_info string
  | St_toast string
  | St_text_area string string
  | St_markdown string
  | Scroll_script
  | Now
  | Configure string
  | Generate_content string bool string
  | Sleep nat
  | Smtp_send string email

text \<open>
  The environment holds what the program cannot decide: the secrets file, the answers of
  the generation service and of the mail server (each may depend on everything that
  happened before), the clock and the PDF reader.
\<close>

record env =
  secrets_api_key :: "string option"
  generate_content :: "effect list \<Rightarrow> string \<Rightarrow> bool \<Rightarrow> string \<Rightarrow> provider_outcome"
  smtp :: "effect list \<Rightarrow> string \<Rightarrow> email \<Rightarrow> smtp_outcome"
  clock :: "effect list \<Rightarrow> string"
  pdf_reader :: "string \<Rightarrow> string attempt list attempt"
  style_css :: "string option"

text \<open>The session state of \<open>init_session_state\<close>, together with the trace.\<close>

record world =
  logs :: "string list"
  jobs_identified :: nat
  successful_dispatches :: nat
  api_fallbacks :: nat
  parsed_resume :: "json option"
  mock_jobs :: "json option"
  interview_questions :: "string option"
  pdf_bytes :: "string option"
  pdf_filename :: "string option"
  workflow_started :: bool
  workflow_completed :: bool
  gemini_api_key :: "string option"
  effects :: "effect list"

definition new_session :: world where
  "new_session =
     \<lparr>logs = [], jobs_identified = 0, successful_dispatches = 0, api_fallbacks = 0,
      parsed_resume = None, mock_jobs = None, interview_questions = None,
      pdf_bytes = None, pdf_filename = None, workflow_started = False,
      workflow_completed = False, gemini_api_key = None, effects = []\<rparr>"

definition emit :: "effect list \<Rightarrow> world \<Rightarrow> world" where
  "emit es w = w\<lparr>effects := effects w @ es\<rparr>"

section \<open>The JSON codec of the Python library\<close>

text \<open>
  \<open>json.dumps\<close> with its defaults (separators \<open>", "\<close> and \<open>": "\<close>, every character
  outside the printable ASCII range escaped) and \<open>json.loads\<close>, a scanner that reads the
  text one character at a time and keeps the open arrays and objects on a stack.
  The interpreter's resource limits (recursion depth, digits of an integer) are not
  modelled.
\<close>

definition code_point :: "char \<Rightarrow> nat" where
  "code_point c = of_char c"

subsection \<open>json.dumps\<close>

definition hex_digit :: "nat \<Rightarrow> char" where
  "hex_digit d = (''0123456789abcdef'') ! d"

definition escape_char :: "char \<Rightarrow> string" where
  "escape_char c =
     (if c = CHR 0x22 then [CHR 0x5C, CHR 0x22]
      else if c = CHR 0x5C then [CHR 0x5C, CHR 0x5C]
      else if c = CHR 0x0A then [CHR 0x5C, CHR ''n'']
      else if c = CHR 0x0D then [CHR 0x5C, CHR ''r'']
      else if c = CHR 0x09 then [CHR 0x5C, CHR ''t'']
      else if c = CHR 0x08 then [CHR 0x5C, CHR ''b'']
      else if c = CHR 0x0C then [CHR 0x5C, CHR ''f'']
      else if 0x20 \<le> code_point c \<and> code_point c \<le> 0x7E then [c]
      else [CHR 0x5C, CHR ''u'', CHR ''0'', CHR ''0'',
            hex_digit (code_point c div 16), hex_digit (code_point c mod 16)])"

definition encode_string :: "string \<Rightarrow> string" where
  "encode_string s = CHR 0x22 # concat (map escape_char s) @ [CHR 0x22]"

fun join :: "string \<Rightarrow> string list \<Rightarrow> string" where
  "join sep [] = []"
| "join sep [x] = x"
| "join sep (x # y # ys) = x @ sep @ join sep (y # ys)"

fun json_dumps :: "json \<Rightarrow> string" where
  "json_dumps JNull = ''null''"
| "json_dumps (JBool b) = (if b then ''true'' else ''false'')"
| "json_dumps (JNum n) = n"
| "json_dumps (JStr s) = encode_string s"
| "json_dumps (JArr xs) = ''['' @ join '', '' (map json_dumps xs) @ '']''"
| "json_dumps (JObj kvs) =
     ''{'' @ join '', '' (map (\<lambda>(k, v). encode_string k @ '': '' @ json_dumps v) kvs) @ ''}''"

subsection \<open>json.loads\<close>

datatype frame = Arr_frame "json list" | Obj_frame "(string \<times> json) list" "string option"

datatype num_state = N_minus | N_zero | N_int | N_dot | N_frac | N_e | N_esign | N_exp

datatype mode =
    M_value
  | M_array_open
  | M_object_open
  | M_key
  | M_colon
  | M_after
  | M_done json
  | M_string bool string
  | M_escape bool string
  | M_unicode bool string "nat list"
  | M_number num_state string
  | M_literal string json

datatype scanner = Scanning "frame list" mode | Malformed | Unrepresentable

definition is_ws :: "char \<Rightarrow> bool" where
  "is_ws c = (c = CHR '' '' \<or> c = CHR 0x09 \<or> c = CHR 0x0A \<or> c = CHR 0x0D)"

definition is_digit :: "char \<Rightarrow> bool" where
  "is_digit c = (48 \<le> code_point c \<and> code_point c \<le> 57)"

fun dict_set :: "(string \<times> json) list \<Rightarrow> string \<Rightarrow> json \<Rightarrow> (string \<times> json) list" where
  "dict_set [] k v = [(k, v)]"
| "dict_set ((k', v') # ps) k v = (if k' = k then (k, v) # ps else (k', v') # dict_set ps k v)"

fun deliver :: "frame list \<Rightarrow> json \<Rightarrow> scanner" where
  "deliver [] v = Scanning [] (M_done v)"
| "deliver (Arr_frame xs # st) v = Scanning (Arr_frame (xs @ [v]) # st) M_after"
| "deliver (Obj_frame ps (Some k) # st) v = Scanning (Obj_frame (dict_set ps k v) None # st) M_after"
| "deliver (Obj_frame ps None # st) v = Malformed"

definition begin_value :: "frame list \<Rightarrow> char \<Rightarrow> scanner" where
  "begin_value st c =
     (if c = CHR 0x22 then Scanning st (M_string False [])
      else if c = CHR ''{'' then Scanning (Obj_frame [] None # st) M_object_open
      else if c = CHR ''['' then Scanning (Arr_frame [] # st) M_array_open
      else if c = CHR ''n'' then Scanning st (M_literal ''ull'' JNull)
      else if c = CHR ''t'' then Scanning st (M_literal ''rue'' (JBool True))
      else if c = CHR ''f'' then Scanning st (M_literal ''alse'' (JBool False))
      else if c = CHR ''N'' then Scanning st (M_literal ''aN'' (JNum ''NaN''))
      else if c = CHR ''I'' then Scanning st (M_literal ''nfinity'' (JNum ''Infinity''))
      else if c = CHR ''-'' then Scanning st (M_number N_minus [c])
      else if c = CHR ''0'' then Scanning st (M_number N_zero [c])
      else if is_digit c then Scanning st (M_number N_int [c])
      else Malformed)"

fun settled :: "frame list \<Rightarrow> mode \<Rightarrow> char \<Rightarrow> scanner" where
  "settled st (M_done v) c = (if is_ws c then Scanning st (M_done v) else Malformed)"
| "settled (Arr_frame xs # st) M_after c =
     (if is_ws c then Scanning (Arr_frame xs # st) M_after
      else if c = CHR '','' then Scanning (Arr_frame xs # st) M_value
      else if c = CHR '']'' then deliver st (JArr xs)
      else Malformed)"
| "settled (Obj_frame ps None # st) M_after c =
     (if is_ws c then Scanning (Obj_frame ps None # st) M_after
      else if c = CHR '','' then Scanning (Obj_frame ps None # st) M_key
      else if c = CHR ''}'' then deliver st (JObj ps)
      else Malformed)"
| "settled st m c = Malformed"

fun num_next :: "num_state \<Rightarrow> char \<Rightarrow> num_state option" where
  "num_next N_minus c = (if c = CHR ''0'' then Some N_zero else if is_digit c then Some N_int else None)"
| "num_next N_zero c = (if c = CHR ''.'' then Some N_dot
                        else if c = CHR ''e'' \<or> c = CHR ''E'' then Some N_e else None)"
| "num_next N_int c = (if is_digit c then Some N_int else if c = CHR ''.'' then Some N_dot
                       else if c = CHR ''e'' \<or> c = CHR ''E'' then Some N_e else None)"
| "num_next N_dot c = (if is_digit c then Some N_frac else None)"
| "num_next N_frac c = (if is_digit c then Some N_frac
                        else if c = CHR ''e'' \<or> c = CHR ''E'' then Some N_e else None)"
| "num_next N_e c = (if c = CHR ''+'' \<or> c = CHR ''-'' then Some N_esign
                     else if is_digit c then Some N_exp else None)"
| "num_next N_esign c = (if is_digit c then Some N_exp else None)"
| "num_next N_exp c = (if is_digit c then Some N_exp else None)"

definition num_complete :: "num_state \<Rightarrow> bool" where
  "num_complete ns = (ns = N_zero \<or> ns = N_int \<or> ns = N_frac \<or> ns = N_exp)"

definition hex_value :: "char \<Rightarrow> nat option" where
  "hex_value c =
     (if is_digit c then Some (code_point c - 48)
      else if 97 \<le> code_point c \<and> code_point c \<le> 102 then Some (code_point c - 87)
      else if 65 \<le> code_point c \<and> code_point c \<le> 70 then Some (code_point c - 55)
      else None)"

definition unescape :: "char \<Rightarrow> char option" where
  "unescape c =
     (if c = CHR 0x22 \<or> c = CHR 0x5C \<or> c = CHR ''/'' then Some c
      else if c = CHR ''b'' then Some (CHR 0x08)
      else if c = CHR ''f'' then Some (CHR 0x0C)
      else if c = CHR ''n'' then Some (CHR 0x0A)
      else if c = CHR ''r'' then Some (CHR 0x0D)
      else if c = CHR ''t'' then Some (CHR 0x09)
      else None)"

fun end_string :: "frame list \<Rightarrow> bool \<Rightarrow> string \<Rightarrow> scanner" where
  "end_string st False s = deliver st (JStr s)"
| "end_string (Obj_frame ps None # st) True s = Scanning (Obj_frame ps (Some s) # st) M_colon"
| "end_string st True s = Malformed"

fun scan :: "frame list \<Rightarrow> mode \<Rightarrow> char \<Rightarrow> scanner" where
  "scan st M_value c = (if is_ws c then Scanning st M_value else begin_value st c)"
| "scan st M_array_open c =
     (if is_ws c then Scanning st M_array_open
      else if c = CHR '']'' then deliver (tl st) (JArr [])
      else begin_value st c)"
| "scan st M_object_open c =
     (if is_ws c then Scanning st M_object_open
      else if c = CHR ''}'' then deliver (tl st) (JObj [])
      else if c = CHR 0x22 then Scanning st (M_string True [])
      else Malformed)"
| "scan st M_key c =
     (if is_ws c then Scanning st M_key
      else if c = CHR 0x22 then Scanning st (M_string True [])
      else Malformed)"
| "scan st M_colon c =
     (if is_ws c then Scanning st M_colon
      else if c = CHR '':'' then Scanning st M_value
      else Malformed)"
| "scan st M_after c = settled st M_after c"
| "scan st (M_done v) c = settled st (M_done v) c"
| "scan st (M_string k acc) c =
     (if c = CHR 0x22 then end_string st k acc
      else if c = CHR 0x5C then Scanning st (M_escape k acc)
      else if code_point c < 0x20 then Malformed
      else Scanning st (M_string k (acc @ [c])))"
| "scan st (M_escape k acc) c =
     (if c = CHR ''u'' then Scanning st (M_unicode k acc [])
      else case unescape c of
             Some x \<Rightarrow> Scanning st (M_string k (acc @ [x]))
           | None \<Rightarrow> Malformed)"
| "scan st (M_unicode k acc ds) c =
     (case hex_value c of
        None \<Rightarrow> Malformed
      | Some d \<Rightarrow>
          (if length ds < 3 then Scanning st (M_unicode k acc (ds @ [d]))
           else (let n = foldl (\<lambda>a x. 16 * a + x) 0 (ds @ [d])
                 in if n < 256 then Scanning st (M_string k (acc @ [char_of n]))
                    else Unrepresentable)))"
| "scan st (M_number ns lexeme) c =
     (case num_next ns c of
        Some ns' \<Rightarrow> Scanning st (M_number ns' (lexeme @ [c]))
      | None \<Rightarrow>
          (if ns = N_minus \<and> c = CHR ''I'' then Scanning st (M_literal ''nfinity'' (JNum ''-Infinity''))
           else if num_complete ns then
             (case deliver st (JNum lexeme) of
                Scanning st' m' \<Rightarrow> settled st' m' c
              | other \<Rightarrow> other)
           else Malformed))"
| "scan st (M_literal rest v) c =
     (case rest of
        [] \<Rightarrow> Malformed
      | x # xs \<Rightarrow>
          (if c \<noteq> x then Malformed
           else if xs = [] then deliver st v
           else Scanning st (M_literal xs v)))"

fun step :: "scanner \<Rightarrow> char \<Rightarrow> scanner" where
  "step (Scanning st m) c = scan st m c"
| "step Malformed c = Malformed"
| "step Unrepresentable c = Unrepresentable"

fun finish :: "scanner \<Rightarrow> json outcome" where
  "finish (Scanning [] (M_done v)) = Returned v"
| "finish (Scanning [] (M_number ns lexeme)) =
     (if num_complete ns then Returned (JNum lexeme) else Raised JSONDecodeError)"
| "finish Unrepresentable = Unmodelled"
| "finish s = Raised JSONDecodeError"

definition json_loads :: "string \<Rightarrow> json outcome" where
  "json_loads s = finish (foldl step (Scanning [] M_value) s)"

section \<open>agents.py: the gateway\<close>

definition configure_genai :: "env \<Rightarrow> world \<Rightarrow> bool \<times> world" where
  "configure_genai e w =
     (let api_key = (case secrets_api_key e of None \<Rightarrow> [] | Some k \<Rightarrow> k);
          api_key = (if api_key = []
                     then (case gemini_api_key w of None \<Rightarrow> [] | Some k \<Rightarrow> k)
                     else api_key)
      in if api_key \<noteq> [] then (True, emit [Configure api_key] w) else (False, w))"

definition call_gemini_with_fallback ::
  "env \<Rightarrow> string \<Rightarrow> string \<Rightarrow> bool \<Rightarrow> world \<Rightarrow> string \<times> world" where
  "call_gemini_with_fallback e prompt fallback_response json_format w =
     (case configure_genai e w of
        (False, w1) \<Rightarrow> (fallback_response, w1)
      | (True, w1) \<Rightarrow>
          (let model = (if json_format then ''gemini-1.5-flash'' else ''gemini-1.5-pro'');
               w2 = emit [Generate_content model json_format prompt] w1
           in case generate_content e (effects w1) model json_format prompt of
                Generated text \<Rightarrow> (text, w2)
              | ResourceExhausted \<Rightarrow>
                  (fallback_response,
                   emit [St_warning
                     ''Gemini API Quota Exceeded (429). Using Fallback Template Engine.''] w2)
              | ProviderError msg \<Rightarrow>
                  (fallback_response, emit [St_error (''Gemini API Error: '' @ msg)] w2)))"

section \<open>Python helpers\<close>

text \<open>
  \<open>str(n)\<close> for a natural number, \<open>xs[-n:]\<close> for a positive \<open>n\<close>, and \<open>str(v)\<close> and
  \<open>dict.get\<close> on decoded values.
\<close>

fun str_nat :: "nat \<Rightarrow> string" where
  "str_nat n = (if n < 10 then [char_of (48 + n)] else str_nat (n div 10) @ [char_of (48 + n mod 10)])"

declare str_nat.simps [simp del]

definition last_n :: "nat \<Rightarrow> 'a list \<Rightarrow> 'a list" where
  "last_n n xs = drop (length xs - n) xs"

definition dict_get :: "(string \<times> json) list \<Rightarrow> string \<Rightarrow> json" where
  "dict_get d k = (case map_of d k of None \<Rightarrow> JNull | Some v \<Rightarrow> v)"

text \<open>
  \<open>str(v)\<close> as an f-string prints it: defined for strings, \<open>None\<close> and booleans. How Python
  prints numbers, lists and dicts is not modelled.
\<close>

fun py_str :: "json \<Rightarrow> string option" where
  "py_str JNull = Some ''None''"
| "py_str (JBool b) = Some (if b then ''True'' else ''False'')"
| "py_str (JStr s) = Some s"
| "py_str v = None"

fun str_items :: "json list \<Rightarrow> string list option" where
  "str_items [] = Some []"
| "str_items (JStr s # vs) = (case str_items vs of None \<Rightarrow> None | Some ss \<Rightarrow> Some (s # ss))"
| "str_items (v # vs) = None"

section \<open>agents.py: the four agents\<close>

definition parse_resume_fallback :: json where
  "parse_resume_fallback =
     JObj [(''role'', JStr ''Software Engineer''),
           (''skills'', JArr [JStr ''Python'', JStr ''Problem Solving'', JStr ''Communication'']),
           (''experience_level'', JStr ''Mid'')]"

definition parse_resume_prompt :: "string \<Rightarrow> string" where
  \<open>parse_resume_prompt resume_text =
      ''\<newline>'' @
      ''    Analyze the following resume and extract the key information into '' @
      ''a JSON format.\<newline>'' @
      ''    The output must strictly be a JSON object with the following keys:\<newline>'' @
      ''    - "role": The primary job title or role described (e.g., '' @
      ''"Full-Stack Engineer", "Data Scientist").\<newline>'' @
      ''    - "skills": A list of top 5-10 technical and soft skills.\<newline>'' @
      ''    - "experience_level": "Entry", "Mid", "Senior", or "Executive".\<newline>'' @
      ''    \<newline>'' @ ''    Resume Text:\<newline>'' @ ''    '' @ resume_text @
      ''\<newline>'' @ ''    ''\<close>

definition parse_resume_agent :: "env \<Rightarrow> string \<Rightarrow> world \<Rightarrow> json outcome \<times> world" where
  "parse_resume_agent e resume_text w =
     (let prompt = parse_resume_prompt resume_text;
          fallback_json = json_dumps parse_resume_fallback;
          (response, w1) = call_gemini_with_fallback e prompt fallback_json True w
      in (case json_loads response of
            Raised JSONDecodeError \<Rightarrow> json_loads fallback_json
          | r \<Rightarrow> r, w1))"

definition job_discovery_fallback :: "string \<Rightarrow> json" where
  "job_discovery_fallback role =
     JArr [JObj [(''company_name'', JStr ''TechNova Solutions''),
                 (''job_title'', JStr (''Senior '' @ role)),
                 (''contact_email'', JStr ''careers@technova.example.com'')],
           JObj [(''company_name'', JStr ''Quantum Innovations''),
                 (''job_title'', JStr (''Lead '' @ role)),
                 (''contact_email'', JStr ''hr@quantuminnovations.example.com'')],
           JObj [(''company_name'', JStr ''CloudNine Systems''),
                 (''job_title'', JStr role),
                 (''contact_email'', JStr ''jobs@cloudninesystems.example.com'')]]"

text \<open>The argument \<open>role\<close> is the text the f-strings print for the caller's value.\<close>

definition job_discovery_prompt :: "string \<Rightarrow> string \<Rightarrow> string" where
  \<open>job_discovery_prompt role location =
      ''\<newline>'' @ ''    Generate exactly 3 mock job opportunities for a '' @ role @
      '' in '' @ location @ ''.\<newline>'' @
      ''    Return output as a JSON array of objects. Each object must have:\<newline>'' @
      ''    - "company_name": Fictional tech company name.\<newline>'' @
      ''    - "job_title": The specific role title.\<newline>'' @
      ''    - "contact_email": <company>@example.recruiting.com\<newline>'' @ ''    ''\<close>

definition job_discovery_agent ::
  "env \<Rightarrow> string \<Rightarrow> string \<Rightarrow> world \<Rightarrow> json outcome \<times> world" where
  "job_discovery_agent e role location w =
     (let prompt = job_discovery_prompt role location;
          fallback_json = json_dumps (job_discovery_fallback role);
          (response, w1) = call_gemini_with_fallback e prompt fallback_json True w
      in (case json_loads response of
            Raised JSONDecodeError \<Rightarrow> json_loads fallback_json
          | r \<Rightarrow> r, w1))"

text \<open>
  What \<open>cover_letter_agent\<close> and the workflow read from the candidate dict: the printed
  \<open>role\<close> and \<open>experience_level\<close>, and \<open>skills\<close> (a list of strings, empty when the key is
  absent). A dict of another shape is outside the model.
\<close>

record profile =
  role_text :: string
  level_text :: string
  skill_list :: "string list"

definition profile_of :: "(string \<times> json) list \<Rightarrow> profile option" where
  "profile_of d =
     (case (py_str (dict_get d ''role''), py_str (dict_get d ''experience_level''),
            (case map_of d ''skills'' of
               None \<Rightarrow> Some []
             | Some (JArr vs) \<Rightarrow> str_items vs
             | Some v \<Rightarrow> None)) of
        (Some r, Some l, Some ss) \<Rightarrow> Some \<lparr>role_text = r, level_text = l, skill_list = ss\<rparr>
      | other \<Rightarrow> None)"

definition cover_letter_fallback :: "profile \<Rightarrow> string \<Rightarrow> string \<Rightarrow> string" where
  "cover_letter_fallback candidate_info company_name job_title =
      ''Dear Hiring Manager at '' @ company_name @ '',\<newline>'' @ ''\<newline>'' @
      ''I am writing to express my strong interest in the '' @ job_title @
      '' role. With my background in '' @ role_text candidate_info @
      '' and experience in '' @ join '', '' (take 3 (skill_list candidate_info)) @
      '', I am confident I would be a valuable addition to your team.\<newline>'' @
      ''\<newline>'' @ ''Please find my resume attached.\<newline>'' @ ''\<newline>'' @
      ''Best regards,\<newline>'' @ ''A Dedicated Professional''"

definition cover_letter_prompt :: "profile \<Rightarrow> string \<Rightarrow> string \<Rightarrow> string" where
  "cover_letter_prompt candidate_info company_name job_title =
      ''\<newline>'' @
      ''    Write a professional and hyper-personalized cover letter.\<newline>'' @
      ''    Candidate Role: '' @ role_text candidate_info @ ''\<newline>'' @
      ''    Candidate Experience Level: '' @ level_text candidate_info @ ''\<newline>'' @
      ''    Candidate Skills: '' @ join '', '' (skill_list candidate_info) @ ''\<newline>'' @
      ''    \<newline>'' @
      ''    Target Company: '' @ company_name @ ''\<newline>'' @
      ''    Target Job Title: '' @ job_title @ ''\<newline>'' @ ''    \<newline>'' @
      ''    Keep it concise, structured, and persuasive. Do not use '' @
      ''placeholders like [Your Name]. Use placeholder tags like '' @
      ''<CANDIDATE_NAME> instead if needed.\<newline>'' @ ''    ''"

definition cover_letter_agent ::
  "env \<Rightarrow> profile \<Rightarrow> string \<Rightarrow> string \<Rightarrow> world \<Rightarrow> string \<times> world" where
  "cover_letter_agent e candidate_info company_name job_title w =
     (let prompt = cover_letter_prompt candidate_info company_name job_title;
          fallback_text = cover_letter_fallback candidate_info company_name job_title
      in call_gemini_with_fallback e prompt fallback_text False w)"

definition interview_prep_fallback :: string where
  "interview_prep_fallback =
      ''1. Tell me about yourself.\<newline>'' @
      ''2. What are your greatest strengths?\<newline>'' @
      ''3. Describe a challenging project you worked on.\<newline>'' @
      ''4. How do you handle tight deadlines?\<newline>'' @
      ''5. Where do you see yourself in 5 years?\<newline>'' @
      ''6. Why do you want to work here?\<newline>'' @
      ''7. Describe a time you disagreed with a coworker.\<newline>'' @
      ''8. How do you stay updated with industry trends?\<newline>'' @
      ''9. What is your preferred work environment?\<newline>'' @
      ''10. Do you have any questions for us?''"

definition interview_prep_prompt :: "string \<Rightarrow> string" where
  "interview_prep_prompt role =
      ''\<newline>'' @
      ''    Generate exactly 10 tailored interview preparation questions for '' @ ''a '' @
      role @ '' position.\<newline>'' @
      ''    Include a mix of technical, behavioral, and architectural '' @
      ''questions appropriate for this role.\<newline>'' @
      ''    Format as a numbered markdown list.\<newline>'' @ ''    ''"

definition interview_prep_agent :: "env \<Rightarrow> string \<Rightarrow> world \<Rightarrow> string \<times> world" where
  "interview_prep_agent e role w =
     (let prompt = interview_prep_prompt role
      in call_gemini_with_fallback e prompt interview_prep_fallback False w)"

section \<open>utils.py\<close>

text \<open>
  \<open>PdfReader(pdf_file)\<close> raises or yields the pages; \<open>extract_text\<close> of a page raises or
  yields its text. Any exception discards the text read so far.
\<close>

fun read_pages :: "string attempt list \<Rightarrow> string \<Rightarrow> string attempt" where
  "read_pages [] text = Yields text"
| "read_pages (Yields extract # pages) text =
     read_pages pages (if extract \<noteq> [] then text @ extract @ ''\<newline>'' else text)"
| "read_pages (Throws msg # pages) text = Throws msg"

definition extract_text_from_pdf :: "env \<Rightarrow> string \<Rightarrow> world \<Rightarrow> string \<times> world" where
  "extract_text_from_pdf e pdf_file w =
     (case (case pdf_reader e pdf_file of
              Throws msg \<Rightarrow> Throws msg
            | Yields pages \<Rightarrow> read_pages pages []) of
        Yields text \<Rightarrow> (text, w)
      | Throws msg \<Rightarrow> ([], emit [St_error (''Error parsing PDF: '' @ msg)] w))"

text \<open>
  The message is built first; the notice, the wait of 20 seconds and the submission
  (connect, STARTTLS, login, send, quit) are inside the \<open>try\<close>.
\<close>

definition build_message ::
  "string \<Rightarrow> string \<Rightarrow> string \<Rightarrow> string \<Rightarrow> string option \<Rightarrow> string option \<Rightarrow> email" where
  "build_message sender_email recipient_email subject body attachment_bytes filename =
     \<lparr>msg_from = sender_email, msg_to = recipient_email, msg_subject = subject,
      msg_body = body,
      msg_attachment =
        (case attachment_bytes of
           None \<Rightarrow> None
         | Some bytes \<Rightarrow> if bytes \<noteq> [] then Some (filename, bytes) else None)\<rparr>"

definition send_email_with_attachment ::
  "env \<Rightarrow> string \<Rightarrow> string \<Rightarrow> string \<Rightarrow> string \<Rightarrow> string \<Rightarrow> string option \<Rightarrow> string option
     \<Rightarrow> world \<Rightarrow> bool \<times> world" where
  "send_email_with_attachment e sender_email app_password recipient_email subject body
       attachment_bytes filename w =
     (let msg = build_message sender_email recipient_email subject body attachment_bytes
                  filename;
          w1 = emit [St_info (''Rate limiting: Waiting 20 seconds before dispatching email to ''
                              @ recipient_email @ ''...''),
                     Sleep 20] w;
          w2 = emit [Smtp_send app_password msg] w1
      in case smtp e (effects w1) app_password msg of
           Delivered \<Rightarrow> (True, w2)
         | SMTPAuthenticationError \<Rightarrow>
             (False, emit [St_error
                ''SMTP Authentication Error: Please verify your Email and App Password.''] w2)
         | SMTPError reason \<Rightarrow>
             (False, emit [St_error (''Failed to send email: '' @ reason)] w2))"

section \<open>app.py\<close>

text \<open>What the widgets of the page return on one run of the script.\<close>

record ui =
  api_key_input :: string
  sender_email :: string
  app_password :: string
  manual_role_input :: string
  preferred_loc :: string
  uploaded_file :: "(string \<times> string) option"
  start_clicked :: bool

text \<open>
  Three log messages of the source end in a pictograph beyond the 8-bit range; the model
  writes each by its code point.
\<close>

definition check_mark :: string where
  "check_mark = ''<U+2705>''"

definition cross_mark :: string where
  "cross_mark = ''<U+274C>''"

definition party_popper :: string where
  "party_popper = ''<U+1F389>''"

definition log_html_of :: "string \<Rightarrow> string \<Rightarrow> string \<Rightarrow> string" where
  "log_html_of timestamp color message =
      ''<div class='terminal-line'><span class='terminal-time'>['' @ timestamp @
      '']</span> <span style='color: '' @ color @ [CHR 0x27] @ ''>'' @ message @
      ''</span></div>''"

definition append_log :: "env \<Rightarrow> string \<Rightarrow> bool \<Rightarrow> bool \<Rightarrow> world \<Rightarrow> world" where
  "append_log e message error fallback w =
     (let timestamp = clock e (effects w);
          w1 = emit [Now] w;
          color = (if error then ''red'' else ''#0288d1'');
          w2 = (if fallback then w1\<lparr>api_fallbacks := api_fallbacks w1 + 1\<rparr> else w1);
          color = (if fallback then ''orange'' else color);
          log_html = log_html_of timestamp color message
      in w2\<lparr>logs := logs w2 @ [log_html]\<rparr>)"

definition terminal_html :: "string \<Rightarrow> string" where
  \<open>terminal_html logs_html =
      ''\<newline>'' @ ''        <div class="terminal-container">\<newline>'' @
      ''            <div class="terminal-body" id="terminal-body">\<newline>'' @
      ''                '' @ logs_html @ ''\<newline>'' @
      ''            </div>\<newline>'' @ ''        </div>\<newline>'' @ ''    ''\<close>

definition render_logs :: "world \<Rightarrow> world" where
  "render_logs w =
     (let logs_html = concat (last_n 50 (logs w))
      in if logs w = [] then w
         else emit [St_markdown (terminal_html logs_html), Scroll_script] w)"

text \<open>
  A discovered opportunity as the loop reads it: each of the three keys is absent or
  holds a string. Discovered data of another shape is outside the model.
\<close>

record opportunity =
  company_name :: "string option"
  job_title :: "string option"
  contact_email :: "string option"

definition str_field :: "(string \<times> json) list \<Rightarrow> string \<Rightarrow> string option option" where
  "str_field d k =
     (case map_of d k of
        None \<Rightarrow> Some None
      | Some (JStr s) \<Rightarrow> Some (Some s)
      | Some v \<Rightarrow> None)"

fun opportunity_of :: "json \<Rightarrow> opportunity option" where
  "opportunity_of (JObj d) =
     (case (str_field d ''company_name'', str_field d ''job_title'',
            str_field d ''contact_email'') of
        (Some c, Some t, Some m) \<Rightarrow>
          Some \<lparr>company_name = c, job_title = t, contact_email = m\<rparr>
      | other \<Rightarrow> None)"
| "opportunity_of v = None"

fun opportunities_of :: "json \<Rightarrow> opportunity list option" where
  "opportunities_of (JArr vs) = those (map opportunity_of vs)"
| "opportunities_of v = None"

text \<open>
  The body of the dispatch loop, for the opportunity \<open>job\<close> at position \<open>index\<close> of \<open>n\<close>,
  in the two parts the source marks: 3.1, the cover letter, and 3.2 and 3.3, the dispatch.
  The second part returns the value of the local variable \<open>success\<close>.
\<close>

definition generate_cover_letter ::
  "env \<Rightarrow> profile \<Rightarrow> nat \<Rightarrow> string \<Rightarrow> string \<Rightarrow> world \<Rightarrow> string \<times> world" where
  "generate_cover_letter e candidate_info index company title w =
     (let w1 = append_log e (''Generating hyper-personalized cover letter targeting '' @ title
                             @ '' at '' @ company @ ''...'') False False w;
          (cover_letter, w2) = cover_letter_agent e candidate_info company title w1;
          w3 = (if prefix ''Dear'' cover_letter
                   \<and> sublist ''A Dedicated Professional'' cover_letter
                then append_log e ''Notice: Used fallback template for cover letter.''
                       False True w2
                else w2)
      in (cover_letter, emit [St_text_area (''cl_'' @ str_nat index) cover_letter] w3))"

definition attach_and_dispatch ::
  "env \<Rightarrow> ui \<Rightarrow> profile \<Rightarrow> string \<Rightarrow> string \<Rightarrow> string \<Rightarrow> string \<Rightarrow> world \<Rightarrow> bool \<times> world" where
  "attach_and_dispatch e u candidate_info company title recipient cover_letter w =
     (let w1 = append_log e (''Preparing dispatch to '' @ recipient
                             @ '' (Includes 20s rate limit buffer)...'') False False w;
          w2 = emit [St_toast (''Waiting 20 seconds before dispatching to '' @ company
                               @ ''...'')] w1;
          subject = ''Application for '' @ title @ '' - '' @ role_text candidate_info;
          (success, w3) =
            (if sublist ''example'' recipient
             then (True, emit [Sleep 3]
                     (append_log e (''Mocking sent email to '' @ recipient
                                    @ '' (Simulated 3s delay)...'') False False w2))
             else send_email_with_attachment e (sender_email u) (app_password u) recipient
                    subject cover_letter (pdf_bytes w2) (pdf_filename w2) w2)
      in if success
         then (True, append_log e (''Successfully dispatched application to '' @ company
                                   @ '' '' @ check_mark) False False
                       (w3\<lparr>successful_dispatches := successful_dispatches w3 + 1\<rparr>))
         else (False, append_log e (''Failed to dispatch to '' @ company @ '' '' @ cross_mark)
                        True False w3))"

definition company_of :: "nat \<Rightarrow> opportunity \<Rightarrow> string" where
  "company_of index job =
     (case company_name job of None \<Rightarrow> ''Company '' @ str_nat (index + 1) | Some c \<Rightarrow> c)"

definition title_of :: "opportunity \<Rightarrow> string" where
  "title_of job = (case job_title job of None \<Rightarrow> ''Software Engineer'' | Some t \<Rightarrow> t)"

definition recipient_of :: "opportunity \<Rightarrow> string" where
  "recipient_of job = (case contact_email job of None \<Rightarrow> ''hr@example.com'' | Some r \<Rightarrow> r)"

definition dispatch_one ::
  "env \<Rightarrow> ui \<Rightarrow> profile \<Rightarrow> nat \<Rightarrow> nat \<Rightarrow> opportunity \<Rightarrow> world \<Rightarrow> bool \<times> world" where
  "dispatch_one e u candidate_info n index job w =
     (let company = company_of index job;
          title = title_of job;
          recipient = recipient_of job;
          w1 = append_log e (''--- Processing '' @ str_nat (index + 1) @ ''/'' @ str_nat n
                             @ '': '' @ company @ '' ---'') False False w;
          (cover_letter, w2) = generate_cover_letter e candidate_info index company title w1
      in attach_and_dispatch e u candidate_info company title recipient cover_letter w2)"

text \<open>\<open>for index, job in enumerate(mock_jobs)\<close>, from position \<open>index\<close> on.\<close>

fun dispatch_loop ::
  "env \<Rightarrow> ui \<Rightarrow> profile \<Rightarrow> nat \<Rightarrow> nat \<Rightarrow> opportunity list \<Rightarrow> world \<Rightarrow> bool list \<times> world" where
  "dispatch_loop e u candidate_info n index [] w = ([], w)"
| "dispatch_loop e u candidate_info n index (job # jobs) w =
     (let (success, w1) = dispatch_one e u candidate_info n index job w;
          (rest, w2) = dispatch_loop e u candidate_info n (Suc index) jobs w1
      in (success # rest, w2))"

text \<open>
  Step 1 of the workflow. \<open>Returned None\<close> is the early \<open>return\<close> after a failed
  extraction. A decoded profile that is not a dict makes the source raise; the model
  does not follow that run.
\<close>

definition intelligent_parsing ::
  "env \<Rightarrow> ui \<Rightarrow> string \<Rightarrow> world \<Rightarrow> profile option outcome \<times> world" where
  "intelligent_parsing e u pdf_file w =
     (let w1 = append_log e ''Reading PDF Resume...'' False False w;
          (resume_text, w2) = extract_text_from_pdf e pdf_file w1
      in if resume_text = []
         then (Returned None,
               emit [St_error ''Could not extract text. Check the PDF format.'']
                 (append_log e ''Failed to extract text from PDF.'' True False w2))
         else
           (let w3 = append_log e ''Analyzing resume content via LLM Agent...'' False False w2;
                (result, w4) = parse_resume_agent e resume_text w3
            in case result of
                 Raised x \<Rightarrow> (Raised x, w4)
               | Unmodelled \<Rightarrow> (Unmodelled, w4)
               | Returned (JObj d) \<Rightarrow>
                   (let (d1, w5) =
                          (if manual_role_input u \<noteq> []
                           then (dict_set d ''role'' (JStr (manual_role_input u)),
                                 append_log e (''Applying manual role override: ''
                                               @ manual_role_input u) False False w4)
                           else (d, w4));
                        w6 = w5\<lparr>parsed_resume := Some (JObj d1)\<rparr>
                    in case profile_of d1 of
                         None \<Rightarrow> (Unmodelled, w6)
                       | Some candidate_info \<Rightarrow>
                           (Returned (Some candidate_info),
                            append_log e (''Analysis Complete -> Role: ''
                                          @ role_text candidate_info @ '' | Level: ''
                                          @ level_text candidate_info) False False w6))
               | Returned v \<Rightarrow> (Unmodelled, w4)))"

text \<open>Step 2: discovery, and the assignment of \<open>jobs_identified\<close>.\<close>

definition discovery ::
  "env \<Rightarrow> ui \<Rightarrow> profile \<Rightarrow> world \<Rightarrow> opportunity list outcome \<times> world" where
  "discovery e u candidate_info w =
     (let w1 = append_log e (''Initiating Discovery Agent for '' @ role_text candidate_info
                             @ '' positions in '' @ preferred_loc u @ ''...'') False False w;
          (result, w2) = job_discovery_agent e (role_text candidate_info) (preferred_loc u) w1
      in case result of
           Raised x \<Rightarrow> (Raised x, w2)
         | Unmodelled \<Rightarrow> (Unmodelled, w2)
         | Returned found \<Rightarrow>
             (let w3 = w2\<lparr>mock_jobs := Some found\<rparr>
              in case opportunities_of found of
                   None \<Rightarrow> (Unmodelled, w3)
                 | Some jobs \<Rightarrow>
                     (Returned jobs,
                      append_log e (''Discovered '' @ str_nat (length jobs)
                                    @ '' targeted opportunities.'') False False
                        (w3\<lparr>jobs_identified := length jobs\<rparr>))))"

text \<open>Step 4: the interview guide.\<close>

definition post_process :: "env \<Rightarrow> profile \<Rightarrow> world \<Rightarrow> world" where
  "post_process e candidate_info w =
     (let w1 = append_log e ''Initializing Post-Process Action: Interview Prep Agent...''
                 False False w;
          (prep_guide, w2) = interview_prep_agent e (role_text candidate_info) w1;
          w3 = w2\<lparr>interview_questions := Some prep_guide\<rparr>;
          w4 = append_log e ''Interview Guide ready.'' False False w3;
          w5 = w4\<lparr>workflow_completed := True\<rparr>
      in append_log e (party_popper @ '' ALL TASKS COMPLETED. Agent going to sleep.'')
           False False w5)"

text \<open>
  The body of \<open>if st.button("Start Agentic Workflow")\<close>. \<open>Returned_early\<close> is a
  \<open>return\<close> out of \<open>main\<close>.
\<close>

datatype exit = Completed | Returned_early

definition run_workflow :: "env \<Rightarrow> ui \<Rightarrow> string \<Rightarrow> world \<Rightarrow> exit outcome \<times> world" where
  "run_workflow e u pdf_file w =
     (if sender_email u = [] \<or> app_password u = []
      then (Returned Returned_early,
            append_log e ''Workflow aborted: Missing SMTP credentials'' True False
              (emit [St_error
                 ''Please configure your Sender Email and App Password in the sidebar.''] w))
      else
        (let w1 = w\<lparr>workflow_started := True, workflow_completed := False, logs := []\<rparr>;
             w2 = append_log e ''Initializing Agentic AI Workflow...'' False False w1
         in case intelligent_parsing e u pdf_file w2 of
              (Returned None, w3) \<Rightarrow> (Returned Returned_early, w3)
            | (Returned (Some candidate_info), w3) \<Rightarrow>
                (case discovery e u candidate_info w3 of
                   (Returned jobs, w4) \<Rightarrow>
                     (let (sent, w5) = dispatch_loop e u candidate_info (length jobs) 0 jobs w4
                      in (Returned Completed, post_process e candidate_info w5))
                 | (Raised x, w4) \<Rightarrow> (Raised x, w4)
                 | (Unmodelled, w4) \<Rightarrow> (Unmodelled, w4))
            | (Raised x, w3) \<Rightarrow> (Raised x, w3)
            | (Unmodelled, w3) \<Rightarrow> (Unmodelled, w3)))"

text \<open>
  One run of the script. A session starts as \<open>new_session\<close>, the defaults of
  \<open>init_session_state\<close>; on later runs every key is present and nothing is reset.
  The button is disabled while no file is uploaded.
\<close>

definition show_results :: "world \<Rightarrow> world" where
  "show_results w =
     render_logs
       (if workflow_completed w
        then emit [St_info (case interview_questions w of None \<Rightarrow> ''None'' | Some q \<Rightarrow> q)] w
        else w)"

definition main :: "env \<Rightarrow> ui \<Rightarrow> world \<Rightarrow> unit outcome \<times> world" where
  "main e u w =
     (let w1 = (case style_css e of
                  None \<Rightarrow> emit [St_warning ''style.css not found, using default styles.''] w
                | Some css \<Rightarrow> w);
          gemini_key = (case secrets_api_key e of None \<Rightarrow> [] | Some k \<Rightarrow> k);
          w2 = (if gemini_key = [] \<and> api_key_input u \<noteq> []
                then w1\<lparr>gemini_api_key := Some (api_key_input u)\<rparr> else w1);
          w3 = (case uploaded_file u of
                  None \<Rightarrow> w2
                | Some (name, bytes) \<Rightarrow>
                    if pdf_filename w2 \<noteq> Some name
                    then w2\<lparr>pdf_bytes := Some bytes, pdf_filename := Some name,
                            parsed_resume := None, workflow_started := False\<rparr>
                    else w2)
      in case (if start_clicked u then uploaded_file u else None) of
           None \<Rightarrow> (Returned (), show_results w3)
         | Some (name, bytes) \<Rightarrow>
             (case run_workflow e u bytes w3 of
                (Returned Completed, w4) \<Rightarrow> (Returned (), show_results w4)
              | (Returned Returned_early, w4) \<Rightarrow> (Returned (), w4)
              | (Raised x, w4) \<Rightarrow> (Raised x, w4)
              | (Unmodelled, w4) \<Rightarrow> (Unmodelled, w4)))"

section \<open>Observing a run\<close>

text \<open>
  The answer the gateway gets from the provider, when it has a credential and asks;
  the effects a step adds to the trace; and the steps that change nothing but the trace.
\<close>

definition provider_call :: "env \<Rightarrow> string \<Rightarrow> bool \<Rightarrow> world \<Rightarrow> provider_outcome option" where
  "provider_call e prompt json_format w =
     (case configure_genai e w of
        (False, w1) \<Rightarrow> None
      | (True, w1) \<Rightarrow>
          Some (generate_content e (effects w1)
                  (if json_format then ''gemini-1.5-flash'' else ''gemini-1.5-pro'')
                  json_format prompt))"

definition new_effects :: "world \<Rightarrow> world \<Rightarrow> effect list" where
  "new_effects w w' = drop (length (effects w)) (effects w')"

definition only_effects :: "world \<Rightarrow> world \<Rightarrow> bool" where
  "only_effects w w' \<longleftrightarrow> w' = emit (new_effects w w') w"

text \<open>
  The events of the trace that reach the provider, and those that wait or submit mail;
  what the PDF reader gives for a file; and a sequence of calls of \<open>append_log\<close>.
\<close>

fun is_provider_event :: "effect \<Rightarrow> bool" where
  "is_provider_event (Configure k) = True"
| "is_provider_event (Generate_content m j p) = True"
| "is_provider_event x = False"

fun is_transport_event :: "effect \<Rightarrow> bool" where
  "is_transport_event (Sleep n) = True"
| "is_transport_event (Smtp_send p m) = True"
| "is_transport_event x = False"

definition provider_events :: "world \<Rightarrow> effect list" where
  "provider_events w = filter is_provider_event (effects w)"

definition transport_events :: "world \<Rightarrow> effect list" where
  "transport_events w = filter is_transport_event (effects w)"

definition pdf_text :: "env \<Rightarrow> string \<Rightarrow> string attempt" where
  "pdf_text e pdf_file =
     (case pdf_reader e pdf_file of
        Throws msg \<Rightarrow> Throws msg
      | Yields pages \<Rightarrow> read_pages pages [])"

fun append_logs :: "env \<Rightarrow> (string \<times> bool \<times> bool) list \<Rightarrow> world \<Rightarrow> world" where
  "append_logs e [] w = w"
| "append_logs e ((message, error, fallback) # rest) w =
     append_logs e rest (append_log e message error fallback w)"

text \<open>The entries that a sequence of calls of \<open>append_log\<close> writes, from the trace \<open>h\<close> on.\<close>

fun log_entries :: "env \<Rightarrow> effect list \<Rightarrow> (string \<times> bool \<times> bool) list \<Rightarrow> string list" where
  "log_entries e h [] = []"
| "log_entries e h ((message, error, fallback) # rest) =
     log_html_of (clock e h)
       (if fallback then ''orange'' else if error then ''red'' else ''#0288d1'') message
     # log_entries e (h @ [Now]) rest"


section \<open>Closed environments for the examples\<close>

definition offline_env :: env where
  "offline_env =
     \<lparr>secrets_api_key = None,
      generate_content = (\<lambda>h m j p. Generated ''unused''),
      smtp = (\<lambda>h p m. Delivered),
      clock = (\<lambda>h. ''12:00:00''),
      pdf_reader = (\<lambda>b. Yields [Yields b]),
      style_css = Some []\<rparr>"

definition quota_env :: env where
  "quota_env = offline_env\<lparr>secrets_api_key := Some ''key'',
                            generate_content := (\<lambda>h m j p. ResourceExhausted)\<rparr>"

definition broken_env :: env where
  "broken_env = offline_env\<lparr>secrets_api_key := Some ''key'',
                             generate_content := (\<lambda>h m j p. ProviderError ''boom'')\<rparr>"



definition unreadable_env :: env where
  "unreadable_env = offline_env\<lparr>pdf_reader := (\<lambda>b. Throws ''encrypted'')\<rparr>"

definition demo_ui :: ui where
  "demo_ui =
     \<lparr>api_key_input = [], sender_email = ''user@example.com'', app_password = ''secret'',
      manual_role_input = [], preferred_loc = ''Remote'',
      uploaded_file = Some (''cv.pdf'', ''resume text''), start_clicked = True\<rparr>"

definition demo_profile :: profile where
  "demo_profile = \<lparr>role_text = ''Data Scientist'', level_text = ''Mid'',
                     skill_list = [''Python'', ''SQL'']\<rparr>"

definition sandbox_job :: opportunity where
  "sandbox_job = \<lparr>company_name = Some ''Acme'', job_title = Some ''Analyst'',
                   contact_email = Some ''ceo@example-labs.io''\<rparr>"

definition real_job :: opportunity where
  "real_job = \<lparr>company_name = Some ''Initech'', job_title = Some ''Engineer'',
                contact_email = Some ''jobs@initech.org''\<rparr>"

definition refusing_env :: env where
  "refusing_env = offline_env\<lparr>smtp := (\<lambda>h p m. SMTPAuthenticationError)\<rparr>"

text \<open>Two runs of the script in one session, without a credential.\<close>

definition first_run :: world where
  "first_run = snd (main offline_env demo_ui new_session)"

definition second_run :: world where
  "second_run = snd (main offline_env demo_ui first_run)"
definition offline_profile :: profile where
  "offline_profile = \<lparr>role_text = ''Software Engineer'', level_text = ''Mid'',
     skill_list = [''Python'', ''Problem Solving'', ''Communication'']\<rparr>"

section \<open>Steps that only extend the trace\<close>

lemma emit_emit [simp]: "emit es (emit es' w) = emit (es' @ es) w"
  by (simp add: emit_def)

lemma emit_Nil [simp]: "emit [] w = w"
  by (simp add: emit_def)

lemma emit_fields [simp]:
  "logs (emit es w) = logs w"
  "jobs_identified (emit es w) = jobs_identified w"
  "successful_dispatches (emit es w) = successful_dispatches w"
  "api_fallbacks (emit es w) = api_fallbacks w"
  "parsed_resume (emit es w) = parsed_resume w"
  "mock_jobs (emit es w) = mock_jobs w"
  "interview_questions (emit es w) = interview_questions w"
  "pdf_bytes (emit es w) = pdf_bytes w"
  "pdf_filename (emit es w) = pdf_filename w"
  "workflow_started (emit es w) = workflow_started w"
  "workflow_completed (emit es w) = workflow_completed w"
  "gemini_api_key (emit es w) = gemini_api_key w"
  "effects (emit es w) = effects w @ es"
  by (simp_all add: emit_def)

lemma new_effects_emit [simp]: "new_effects w (emit es w) = es"
  by (simp add: new_effects_def)

lemma new_effects_self [simp]: "new_effects w w = []"
  by (simp add: new_effects_def)

lemma only_effects_iff: "only_effects w w' \<longleftrightarrow> (\<exists>es. w' = emit es w)"
proof
  assume "only_effects w w'"
  then show "\<exists>es. w' = emit es w" unfolding only_effects_def by blast
next
  assume "\<exists>es. w' = emit es w"
  then obtain es where "w' = emit es w" ..
  then show "only_effects w w'"
    by (simp add: only_effects_def)
qed

lemma only_effects_emit [simp]: "only_effects w (emit es w)"
  by (auto simp: only_effects_iff)

lemma only_effects_refl [simp]: "only_effects w w"
  using only_effects_emit [of w "[]"] by simp

lemma only_effectsD:
  assumes "only_effects w w'"
  shows "logs w' = logs w" "jobs_identified w' = jobs_identified w"
    "successful_dispatches w' = successful_dispatches w" "api_fallbacks w' = api_fallbacks w"
    "parsed_resume w' = parsed_resume w" "mock_jobs w' = mock_jobs w"
    "interview_questions w' = interview_questions w" "pdf_bytes w' = pdf_bytes w"
    "pdf_filename w' = pdf_filename w" "workflow_started w' = workflow_started w"
    "workflow_completed w' = workflow_completed w" "gemini_api_key w' = gemini_api_key w"
  using assms by (auto simp: only_effects_iff)


lemma configure_genai_only: "only_effects w (snd (configure_genai e w))"
  by (simp add: configure_genai_def Let_def)

lemma gateway_only: "only_effects w (snd (call_gemini_with_fallback e p f j w))"
  by (auto simp: call_gemini_with_fallback_def configure_genai_def Let_def
      split: provider_outcome.splits)

lemma parse_resume_only: "only_effects w (snd (parse_resume_agent e t w))"
  by (simp add: parse_resume_agent_def Let_def case_prod_unfold gateway_only)

lemma job_discovery_only: "only_effects w (snd (job_discovery_agent e r l w))"
  by (simp add: job_discovery_agent_def Let_def case_prod_unfold gateway_only)

lemma cover_letter_only: "only_effects w (snd (cover_letter_agent e c co t w))"
  by (simp add: cover_letter_agent_def Let_def gateway_only)

lemma interview_prep_only: "only_effects w (snd (interview_prep_agent e r w))"
  by (simp add: interview_prep_agent_def Let_def gateway_only)

lemma extract_only: "only_effects w (snd (extract_text_from_pdf e f w))"
  by (simp add: extract_text_from_pdf_def split: attempt.splits)

lemma send_email_only:
  "only_effects w (snd (send_email_with_attachment e s p r su b a f w))"
  by (simp add: send_email_with_attachment_def Let_def split: smtp_outcome.splits)

lemmas gateway_fields [simp] = only_effectsD [OF gateway_only]
lemmas parse_resume_fields [simp] = only_effectsD [OF parse_resume_only]
lemmas job_discovery_fields [simp] = only_effectsD [OF job_discovery_only]
lemmas cover_letter_fields [simp] = only_effectsD [OF cover_letter_only]
lemmas interview_prep_fields [simp] = only_effectsD [OF interview_prep_only]
lemmas extract_fields [simp] = only_effectsD [OF extract_only]
lemmas send_email_fields [simp] = only_effectsD [OF send_email_only]

lemma append_log_fields [simp]:
  "jobs_identified (append_log e m er fb w) = jobs_identified w"
  "successful_dispatches (append_log e m er fb w) = successful_dispatches w"
  "api_fallbacks (append_log e m er fb w) = api_fallbacks w + (if fb then 1 else 0)"
  "parsed_resume (append_log e m er fb w) = parsed_resume w"
  "mock_jobs (append_log e m er fb w) = mock_jobs w"
  "interview_questions (append_log e m er fb w) = interview_questions w"
  "pdf_bytes (append_log e m er fb w) = pdf_bytes w"
  "pdf_filename (append_log e m er fb w) = pdf_filename w"
  "workflow_started (append_log e m er fb w) = workflow_started w"
  "workflow_completed (append_log e m er fb w) = workflow_completed w"
  "gemini_api_key (append_log e m er fb w) = gemini_api_key w"
  "effects (append_log e m er fb w) = effects w @ [Now]"
  "length (logs (append_log e m er fb w)) = Suc (length (logs w))"
  by (simp_all add: append_log_def Let_def emit_def)

section \<open>The gateway degrades to the fallback\<close>

lemma gateway_result:
  "fst (call_gemini_with_fallback e p fb jf w) =
     (case provider_call e p jf w of Some (Generated text) \<Rightarrow> text | other \<Rightarrow> fb)"
  by (auto simp: call_gemini_with_fallback_def provider_call_def Let_def
      split: prod.splits bool.splits provider_outcome.splits)

lemma gateway_offline:
  "provider_call e p jf w = None \<Longrightarrow> call_gemini_with_fallback e p fb jf w = (fb, w)"
  by (auto simp: call_gemini_with_fallback_def provider_call_def configure_genai_def Let_def
      split: if_splits)

lemma provider_call_simps:
  "secrets_api_key e = None \<Longrightarrow> gemini_api_key w = None \<Longrightarrow> provider_call e p jf w = None"
  "secrets_api_key e = Some k \<Longrightarrow> k \<noteq> [] \<Longrightarrow>
     provider_call e p jf w =
       Some (generate_content e (effects w @ [Configure k])
               (if jf then ''gemini-1.5-flash'' else ''gemini-1.5-pro'') jf p)"
  by (simp_all add: provider_call_def configure_genai_def Let_def)

text \<open>
  C1. The gateway returns a string on every path. Without a credential it returns the
  fallback and leaves the world as it was, so no call of the provider is made; when the
  provider raises quota exhaustion, or any other error, it returns the fallback; when
  the provider answers, it returns the answer.
\<close>

theorem gateway_returns_fallback:
  "(provider_call e prompt jf w = None \<longrightarrow>
      call_gemini_with_fallback e prompt fb jf w = (fb, w))
   \<and> (provider_call e prompt jf w = Some ResourceExhausted \<longrightarrow>
      fst (call_gemini_with_fallback e prompt fb jf w) = fb)
   \<and> (provider_call e prompt jf w = Some (ProviderError msg) \<longrightarrow>
      fst (call_gemini_with_fallback e prompt fb jf w) = fb)
   \<and> (provider_call e prompt jf w = Some (Generated text) \<longrightarrow>
      fst (call_gemini_with_fallback e prompt fb jf w) = text)"
  by (simp add: gateway_result gateway_offline)

theorem gateway_returns_fallback_witness:
  "provider_call offline_env ''p'' True new_session = None
   \<and> call_gemini_with_fallback offline_env ''p'' ''fb'' True new_session = (''fb'', new_session)
   \<and> provider_call quota_env ''p'' True new_session = Some ResourceExhausted
   \<and> fst (call_gemini_with_fallback quota_env ''p'' ''fb'' True new_session) = ''fb''
   \<and> provider_call broken_env ''p'' False new_session = Some (ProviderError ''boom'')
   \<and> fst (call_gemini_with_fallback broken_env ''p'' ''fb'' False new_session) = ''fb''"
proof -
  have a: "provider_call offline_env ''p'' True new_session = None"
    by (simp add: provider_call_simps offline_env_def new_session_def)
  have b: "provider_call quota_env ''p'' True new_session = Some ResourceExhausted"
    by (simp add: provider_call_simps(2) [of _ "''key''"] quota_env_def offline_env_def)
  have c: "provider_call broken_env ''p'' False new_session = Some (ProviderError ''boom'')"
    by (simp add: provider_call_simps(2) [of _ "''key''"] broken_env_def offline_env_def)
  show ?thesis
    using a b c
      gateway_returns_fallback [of offline_env "''p''" True new_session "''fb''"]
      gateway_returns_fallback [of quota_env "''p''" True new_session "''fb''"]
      gateway_returns_fallback [of broken_env "''p''" False new_session "''fb''" "''boom''"]
    by simp
qed

section \<open>Where fallbacks are counted\<close>


lemma generate_cover_letter_fallbacks:
  "api_fallbacks (snd (generate_cover_letter e c i co t w)) =
     api_fallbacks w
     + (if prefix ''Dear'' (fst (generate_cover_letter e c i co t w))
           \<and> sublist ''A Dedicated Professional'' (fst (generate_cover_letter e c i co t w))
        then 1 else 0)"
  by (simp add: generate_cover_letter_def Let_def case_prod_unfold)




section \<open>The codec reads back what it wrote\<close>

lemma hex_value_hex_digit: "d < 16 \<Longrightarrow> hex_value (hex_digit d) = Some d"
proof -
  assume "d < 16"
  then have "d = 0 \<or> d = 1 \<or> d = 2 \<or> d = 3 \<or> d = 4 \<or> d = 5 \<or> d = 6 \<or> d = 7 \<or> d = 8
      \<or> d = 9 \<or> d = 10 \<or> d = 11 \<or> d = 12 \<or> d = 13 \<or> d = 14 \<or> d = 15"
    by arith
  then show ?thesis
    by (elim disjE) (simp_all add: hex_digit_def hex_value_def is_digit_def code_point_def)
qed

lemma hex_value_zero: "hex_value (CHR ''0'') = Some 0"
  by (simp add: hex_value_def is_digit_def code_point_def)

lemma char_of_code_point: "char_of (code_point c) = c"
  by (simp add: code_point_def)

lemma code_point_bound: "code_point c div 16 < 16" "code_point c mod 16 < 16" "code_point c < 256"
  by (simp_all add: code_point_def div_less_iff_less_mult)

lemma scan_unicode_escape:
  "foldl step (Scanning st (M_string k acc))
     [CHR 0x5C, CHR ''u'', CHR ''0'', CHR ''0'',
      hex_digit (code_point c div 16), hex_digit (code_point c mod 16)]
   = Scanning st (M_string k (acc @ [c]))"
  using code_point_bound [of c]
  by (simp add: hex_value_hex_digit hex_value_zero char_of_code_point)

lemma scan_escape_char:
  "foldl step (Scanning st (M_string k acc)) (escape_char c) = Scanning st (M_string k (acc @ [c]))"
  unfolding escape_char_def
  apply (simp only: scan_unicode_escape split: if_split)
  apply (auto simp: unescape_def code_point_def)
  done

lemma scan_escaped:
  "foldl step (Scanning st (M_string k acc)) (concat (map escape_char s))
   = Scanning st (M_string k (acc @ s))"
  by (induction s arbitrary: acc) (simp_all add: scan_escape_char)

lemma scan_encoded_value:
  "foldl step (Scanning st M_value) (encode_string s) = deliver st (JStr s)"
  by (simp add: encode_string_def is_ws_def begin_value_def scan_escaped)

lemma scan_encoded_first_key:
  "foldl step (Scanning (Obj_frame ps None # st) M_object_open) (encode_string s)
   = Scanning (Obj_frame ps (Some s) # st) M_colon"
  by (simp add: encode_string_def is_ws_def scan_escaped)

lemma scan_encoded_key:
  "foldl step (Scanning (Obj_frame ps None # st) M_key) (encode_string s)
   = Scanning (Obj_frame ps (Some s) # st) M_colon"
  by (simp add: encode_string_def is_ws_def scan_escaped)

lemma scan_encoded_first_item:
  "foldl step (Scanning st M_array_open) (encode_string s) = deliver st (JStr s)"
  by (simp add: encode_string_def is_ws_def begin_value_def scan_escaped)

lemmas scan_encoded =
  scan_encoded_value scan_encoded_first_key scan_encoded_key scan_encoded_first_item

lemma loads_parse_resume_fallback:
  "json_loads (json_dumps parse_resume_fallback) = Returned parse_resume_fallback"
  unfolding json_loads_def parse_resume_fallback_def
  by (simp add: scan_encoded is_ws_def begin_value_def)

lemma loads_job_discovery_fallback:
  "json_loads (json_dumps (job_discovery_fallback role)) = Returned (job_discovery_fallback role)"
  unfolding json_loads_def job_discovery_fallback_def
  by (simp add: scan_encoded is_ws_def begin_value_def)



section \<open>The two decoding agents\<close>

lemma parse_resume_result:
  "fst (parse_resume_agent e resume_text w) =
     (case provider_call e (parse_resume_prompt resume_text) True w of
        Some (Generated text) \<Rightarrow>
          (case json_loads text of
             Raised JSONDecodeError \<Rightarrow> Returned parse_resume_fallback
           | r \<Rightarrow> r)
      | other \<Rightarrow> Returned parse_resume_fallback)"
  by (simp add: parse_resume_agent_def Let_def case_prod_unfold gateway_result
      loads_parse_resume_fallback
      split: option.splits provider_outcome.splits outcome.splits py_exn.splits)

lemma job_discovery_result:
  "fst (job_discovery_agent e role location w) =
     (case provider_call e (job_discovery_prompt role location) True w of
        Some (Generated text) \<Rightarrow>
          (case json_loads text of
             Raised JSONDecodeError \<Rightarrow> Returned (job_discovery_fallback role)
           | r \<Rightarrow> r)
      | other \<Rightarrow> Returned (job_discovery_fallback role))"
  by (simp add: job_discovery_agent_def Let_def case_prod_unfold gateway_result
      loads_job_discovery_fallback
      split: option.splits provider_outcome.splits outcome.splits py_exn.splits)






section \<open>The log and its rendering\<close>

lemma append_log_logs:
  "logs (append_log e m er fb w) =
     logs w @ [log_html_of (clock e (effects w))
                 (if fb then ''orange'' else if er then ''red'' else ''#0288d1'') m]"
  by (simp add: append_log_def Let_def emit_def)

lemma length_log_entries: "length (log_entries e h rs) = length rs"
  by (induction e h rs rule: log_entries.induct) simp_all

lemma append_logs_logs: "logs (append_logs e rs w) = logs w @ log_entries e (effects w) rs"
  by (induction e rs w rule: append_logs.induct) (simp_all add: append_log_logs)

lemma render_logs_effects:
  "logs w \<noteq> [] \<Longrightarrow>
     new_effects w (render_logs w) =
       [St_markdown (terminal_html (concat (last_n 50 (logs w)))), Scroll_script]"
  by (simp add: render_logs_def Let_def)

text \<open>
  C8, as amended. The stored log keeps every entry appended in the run, in order. The
  rendering shows the most recent 50 of them, in append order, and no more than 50.
\<close>

theorem rendered_log_is_last_50:
  "logs (append_logs e rs w) = logs w @ log_entries e (effects w) rs
   \<and> length (log_entries e (effects w) rs) = length rs
   \<and> (logs w = [] \<and> rs \<noteq> [] \<longrightarrow>
        new_effects (append_logs e rs w) (render_logs (append_logs e rs w)) =
          [St_markdown (terminal_html
             (concat (drop (length rs - 50) (log_entries e (effects w) rs)))),
           Scroll_script]
        \<and> length (drop (length rs - 50) (log_entries e (effects w) rs)) = min 50 (length rs))"
proof (intro conjI impI)
  show "logs (append_logs e rs w) = logs w @ log_entries e (effects w) rs"
    by (rule append_logs_logs)
  show "length (log_entries e (effects w) rs) = length rs"
    by (rule length_log_entries)
next
  assume a: "logs w = [] \<and> rs \<noteq> []"
  then have "logs (append_logs e rs w) = log_entries e (effects w) rs"
    by (simp add: append_logs_logs)
  moreover from a have "log_entries e (effects w) rs \<noteq> []"
    using length_log_entries [of e "effects w" rs] by auto
  ultimately show
    "new_effects (append_logs e rs w) (render_logs (append_logs e rs w)) =
       [St_markdown (terminal_html
          (concat (drop (length rs - 50) (log_entries e (effects w) rs)))),
        Scroll_script]"
    by (simp add: render_logs_effects last_n_def length_log_entries)
  show "length (drop (length rs - 50) (log_entries e (effects w) rs)) = min 50 (length rs)"
    by (simp add: length_log_entries)
qed

theorem rendered_log_is_last_50_witness:
  "logs new_session = [] \<and> replicate 1000 (''m'', False, False) \<noteq> []
   \<and> length (logs (append_logs offline_env (replicate 1000 (''m'', False, False)) new_session))
       = 1000
   \<and> length (drop (1000 - 50)
        (log_entries offline_env (effects new_session) (replicate 1000 (''m'', False, False))))
       = 50"
  using rendered_log_is_last_50
    [of offline_env "replicate 1000 (''m'', False, False)" new_session]
  by (simp add: new_session_def)

text \<open>
  The claim as stated fails: after 51 entries the log holds 51 entries, not at most 50.
\<close>

theorem log_keeps_all_counterexample:
  "\<not> length (logs (append_logs offline_env (replicate 51 (''m'', False, False)) new_session))
      \<le> 50"
  by (simp add: append_logs_logs length_log_entries new_session_def)

section \<open>Extraction and the early return\<close>

lemma filter_events_simps [simp]:
  "provider_events (emit es w) = provider_events w @ filter is_provider_event es"
  "transport_events (emit es w) = transport_events w @ filter is_transport_event es"
  "provider_events (append_log e m er fb w) = provider_events w"
  "transport_events (append_log e m er fb w) = transport_events w"
  by (simp_all add: provider_events_def transport_events_def)

lemma events_record_update [simp]:
  "provider_events (w\<lparr>logs := l\<rparr>) = provider_events w"
  "transport_events (w\<lparr>logs := l\<rparr>) = transport_events w"
  "provider_events (w\<lparr>workflow_started := b\<rparr>) = provider_events w"
  "transport_events (w\<lparr>workflow_started := b\<rparr>) = transport_events w"
  "provider_events (w\<lparr>workflow_completed := b\<rparr>) = provider_events w"
  "transport_events (w\<lparr>workflow_completed := b\<rparr>) = transport_events w"
  by (simp_all add: provider_events_def transport_events_def)

lemma extract_text_result:
  "extract_text_from_pdf e f w =
     (case pdf_text e f of
        Yields text \<Rightarrow> (text, w)
      | Throws msg \<Rightarrow> ([], emit [St_error (''Error parsing PDF: '' @ msg)] w))"
  by (simp add: extract_text_from_pdf_def pdf_text_def)

lemma extract_events [simp]:
  "provider_events (snd (extract_text_from_pdf e f w)) = provider_events w"
  "transport_events (snd (extract_text_from_pdf e f w)) = transport_events w"
  by (simp_all add: extract_text_result split: attempt.splits)

text \<open>
  C9. Extraction does not raise: on an unreadable document it shows an error and
  returns the empty string. When the extracted text is empty the workflow shows an
  error and returns before parsing, discovery and dispatch: it calls neither the
  provider nor the mail transport, and the counters and results are as they were.
\<close>

theorem extraction_failure_aborts:
  "(pdf_text e f = Throws msg \<longrightarrow>
      extract_text_from_pdf e f w = ([], emit [St_error (''Error parsing PDF: '' @ msg)] w))
   \<and> (pdf_text e f = Yields text \<longrightarrow> extract_text_from_pdf e f w = (text, w))
   \<and> (sender_email u \<noteq> [] \<and> app_password u \<noteq> [] \<and> fst (extract_text_from_pdf e f w) = [] \<longrightarrow>
        fst (run_workflow e u f w) = Returned Returned_early
        \<and> last (effects (snd (run_workflow e u f w)))
            = St_error ''Could not extract text. Check the PDF format.''
        \<and> provider_events (snd (run_workflow e u f w)) = provider_events w
        \<and> transport_events (snd (run_workflow e u f w)) = transport_events w
        \<and> jobs_identified (snd (run_workflow e u f w)) = jobs_identified w
        \<and> successful_dispatches (snd (run_workflow e u f w)) = successful_dispatches w
        \<and> api_fallbacks (snd (run_workflow e u f w)) = api_fallbacks w
        \<and> parsed_resume (snd (run_workflow e u f w)) = parsed_resume w
        \<and> mock_jobs (snd (run_workflow e u f w)) = mock_jobs w
        \<and> \<not> workflow_completed (snd (run_workflow e u f w)))"
proof (intro conjI impI)
  assume "pdf_text e f = Throws msg"
  then show "extract_text_from_pdf e f w
               = ([], emit [St_error (''Error parsing PDF: '' @ msg)] w)"
    by (simp add: extract_text_result)
next
  assume "pdf_text e f = Yields text"
  then show "extract_text_from_pdf e f w = (text, w)"
    by (simp add: extract_text_result)
next
  assume a: "sender_email u \<noteq> [] \<and> app_password u \<noteq> [] \<and> fst (extract_text_from_pdf e f w) = []"
  have empty: "fst (extract_text_from_pdf e f w') = []" for w'
    using a by (simp add: extract_text_result split: attempt.splits)
  define w2 where "w2 = append_log e ''Reading PDF Resume...'' False False
     (append_log e ''Initializing Agentic AI Workflow...'' False False
        (w\<lparr>workflow_started := True, workflow_completed := False, logs := []\<rparr>))"
  have run: "run_workflow e u f w =
     (Returned Returned_early,
      emit [St_error ''Could not extract text. Check the PDF format.'']
        (append_log e ''Failed to extract text from PDF.'' True False
           (snd (extract_text_from_pdf e f w2))))"
    using a empty [of w2]
    by (simp add: run_workflow_def intelligent_parsing_def Let_def case_prod_unfold w2_def)
  show "fst (run_workflow e u f w) = Returned Returned_early"
    by (simp add: run)
  show "last (effects (snd (run_workflow e u f w)))
          = St_error ''Could not extract text. Check the PDF format.''"
    by (simp add: run)
  show "provider_events (snd (run_workflow e u f w)) = provider_events w"
    by (simp add: run w2_def)
  show "transport_events (snd (run_workflow e u f w)) = transport_events w"
    by (simp add: run w2_def)
  show "jobs_identified (snd (run_workflow e u f w)) = jobs_identified w"
    by (simp add: run w2_def)
  show "successful_dispatches (snd (run_workflow e u f w)) = successful_dispatches w"
    by (simp add: run w2_def)
  show "api_fallbacks (snd (run_workflow e u f w)) = api_fallbacks w"
    by (simp add: run w2_def)
  show "parsed_resume (snd (run_workflow e u f w)) = parsed_resume w"
    by (simp add: run w2_def)
  show "mock_jobs (snd (run_workflow e u f w)) = mock_jobs w"
    by (simp add: run w2_def)
  show "\<not> workflow_completed (snd (run_workflow e u f w))"
    by (simp add: run w2_def)
qed

theorem extraction_failure_aborts_witness:
  "pdf_text unreadable_env ''%PDF'' = Throws ''encrypted''
   \<and> sender_email demo_ui \<noteq> [] \<and> app_password demo_ui \<noteq> []
   \<and> fst (extract_text_from_pdf unreadable_env ''%PDF'' new_session) = []
   \<and> fst (run_workflow unreadable_env demo_ui ''%PDF'' new_session) = Returned Returned_early
   \<and> provider_events (snd (run_workflow unreadable_env demo_ui ''%PDF'' new_session)) = []
   \<and> transport_events (snd (run_workflow unreadable_env demo_ui ''%PDF'' new_session)) = []
   \<and> successful_dispatches (snd (run_workflow unreadable_env demo_ui ''%PDF'' new_session)) = 0"
proof -
  have a: "pdf_text unreadable_env ''%PDF'' = Throws ''encrypted''"
    by (simp add: pdf_text_def unreadable_env_def offline_env_def)
  have b: "sender_email demo_ui \<noteq> [] \<and> app_password demo_ui \<noteq> []"
    by (simp add: demo_ui_def)
  show ?thesis
    using a b extraction_failure_aborts
      [of unreadable_env "''%PDF''" "''encrypted''" new_session "''x''" demo_ui]
    by (simp add: new_session_def provider_events_def transport_events_def)
qed

section \<open>One dispatch\<close>

lemma events_counter_update [simp]:
  "provider_events (w\<lparr>successful_dispatches := k\<rparr>) = provider_events w"
  "transport_events (w\<lparr>successful_dispatches := k\<rparr>) = transport_events w"
  "provider_events (w\<lparr>jobs_identified := k\<rparr>) = provider_events w"
  "transport_events (w\<lparr>jobs_identified := k\<rparr>) = transport_events w"
  "provider_events (w\<lparr>api_fallbacks := k\<rparr>) = provider_events w"
  "transport_events (w\<lparr>api_fallbacks := k\<rparr>) = transport_events w"
  by (simp_all add: provider_events_def transport_events_def)

lemma gateway_events [simp]:
  "transport_events (snd (call_gemini_with_fallback e p f j w)) = transport_events w"
  by (auto simp: call_gemini_with_fallback_def configure_genai_def Let_def
      split: provider_outcome.splits)

lemma generate_cover_letter_fields [simp]:
  "jobs_identified (snd (generate_cover_letter e c i co t w)) = jobs_identified w"
  "successful_dispatches (snd (generate_cover_letter e c i co t w)) = successful_dispatches w"
  "gemini_api_key (snd (generate_cover_letter e c i co t w)) = gemini_api_key w"
  "pdf_bytes (snd (generate_cover_letter e c i co t w)) = pdf_bytes w"
  "pdf_filename (snd (generate_cover_letter e c i co t w)) = pdf_filename w"
  "transport_events (snd (generate_cover_letter e c i co t w)) = transport_events w"
  by (simp_all add: generate_cover_letter_def cover_letter_agent_def Let_def case_prod_unfold)

lemma send_email_result:
  "fst (send_email_with_attachment e s p r su b a f w) =
     (smtp e (effects w @ [St_info (''Rate limiting: Waiting 20 seconds before dispatching email to ''
                                     @ r @ ''...''), Sleep 20]) p
        (build_message s r su b a f) = Delivered)"
  "transport_events (snd (send_email_with_attachment e s p r su b a f w)) =
     transport_events w @ [Sleep 20, Smtp_send p (build_message s r su b a f)]"
  by (simp_all add: send_email_with_attachment_def Let_def split: smtp_outcome.splits)

lemma attach_and_dispatch_fields [simp]:
  "jobs_identified (snd (attach_and_dispatch e u c co t r cl w)) = jobs_identified w"
  "successful_dispatches (snd (attach_and_dispatch e u c co t r cl w))
     = successful_dispatches w + (if fst (attach_and_dispatch e u c co t r cl w) then 1 else 0)"
  "api_fallbacks (snd (attach_and_dispatch e u c co t r cl w)) = api_fallbacks w"
  "gemini_api_key (snd (attach_and_dispatch e u c co t r cl w)) = gemini_api_key w"
  "pdf_bytes (snd (attach_and_dispatch e u c co t r cl w)) = pdf_bytes w"
  "pdf_filename (snd (attach_and_dispatch e u c co t r cl w)) = pdf_filename w"
  by (simp_all add: attach_and_dispatch_def Let_def case_prod_unfold)

lemma attach_and_dispatch_sandbox:
  assumes "sublist ''example'' r"
  shows "fst (attach_and_dispatch e u c co t r cl w)"
    "transport_events (snd (attach_and_dispatch e u c co t r cl w))
       = transport_events w @ [Sleep 3]"
  using assms by (simp_all add: attach_and_dispatch_def Let_def)

lemma attach_and_dispatch_real:
  assumes "\<not> sublist ''example'' r"
  shows "\<exists>h. fst (attach_and_dispatch e u c co t r cl w) =
           (smtp e h (app_password u)
              (build_message (sender_email u) r
                 (''Application for '' @ t @ '' - '' @ role_text c) cl
                 (pdf_bytes w) (pdf_filename w)) = Delivered)"
    "transport_events (snd (attach_and_dispatch e u c co t r cl w))
       = transport_events w
         @ [Sleep 20,
            Smtp_send (app_password u)
              (build_message (sender_email u) r
                 (''Application for '' @ t @ '' - '' @ role_text c) cl
                 (pdf_bytes w) (pdf_filename w))]"
proof -
  show "\<exists>h. fst (attach_and_dispatch e u c co t r cl w) =
           (smtp e h (app_password u)
              (build_message (sender_email u) r
                 (''Application for '' @ t @ '' - '' @ role_text c) cl
                 (pdf_bytes w) (pdf_filename w)) = Delivered)"
    using assms
    by (auto simp: attach_and_dispatch_def Let_def case_prod_unfold send_email_result)
  show "transport_events (snd (attach_and_dispatch e u c co t r cl w))
       = transport_events w
         @ [Sleep 20,
            Smtp_send (app_password u)
              (build_message (sender_email u) r
                 (''Application for '' @ t @ '' - '' @ role_text c) cl
                 (pdf_bytes w) (pdf_filename w))]"
    using assms
    by (simp add: attach_and_dispatch_def Let_def case_prod_unfold send_email_result)
qed

lemma dispatch_one_fields [simp]:
  "jobs_identified (snd (dispatch_one e u c n i job w)) = jobs_identified w"
  "successful_dispatches (snd (dispatch_one e u c n i job w))
     = successful_dispatches w + (if fst (dispatch_one e u c n i job w) then 1 else 0)"
  "gemini_api_key (snd (dispatch_one e u c n i job w)) = gemini_api_key w"
  "pdf_bytes (snd (dispatch_one e u c n i job w)) = pdf_bytes w"
  "pdf_filename (snd (dispatch_one e u c n i job w)) = pdf_filename w"
  by (simp_all add: dispatch_one_def Let_def case_prod_unfold)

lemma dispatch_one_fallbacks:
  "api_fallbacks w \<le> api_fallbacks (snd (dispatch_one e u c n i job w))"
  by (simp add: dispatch_one_def Let_def case_prod_unfold generate_cover_letter_fallbacks)

lemma dispatch_one_sandbox:
  assumes "sublist ''example'' (recipient_of job)"
  shows "fst (dispatch_one e u c n i job w)"
    "transport_events (snd (dispatch_one e u c n i job w)) = transport_events w @ [Sleep 3]"
  using assms
  by (simp_all add: dispatch_one_def Let_def case_prod_unfold attach_and_dispatch_sandbox)

lemma dispatch_one_real:
  assumes "\<not> sublist ''example'' (recipient_of job)"
  shows "\<exists>h m. fst (dispatch_one e u c n i job w) = (smtp e h (app_password u) m = Delivered)"
    "\<exists>m. transport_events (snd (dispatch_one e u c n i job w))
            = transport_events w @ [Sleep 20, Smtp_send (app_password u) m]
          \<and> msg_to m = recipient_of job \<and> msg_from m = sender_email u"
proof -
  show "\<exists>h m. fst (dispatch_one e u c n i job w) = (smtp e h (app_password u) m = Delivered)"
    using attach_and_dispatch_real(1) [OF assms]
    by (simp add: dispatch_one_def Let_def case_prod_unfold) blast
  show "\<exists>m. transport_events (snd (dispatch_one e u c n i job w))
            = transport_events w @ [Sleep 20, Smtp_send (app_password u) m]
          \<and> msg_to m = recipient_of job \<and> msg_from m = sender_email u"
    using attach_and_dispatch_real(2) [OF assms]
    by (simp add: dispatch_one_def Let_def case_prod_unfold build_message_def)
qed

text \<open>
  C7. A dispatch to a sandbox recipient waits 3 seconds and submits nothing: the only
  wait or submission it adds to the trace is \<open>Sleep 3\<close>. A dispatch to any other
  recipient adds a wait of 20 seconds and then the submission to that recipient, and
  nothing else.
\<close>

theorem dispatch_delay:
  "(sublist ''example'' (recipient_of job) \<longrightarrow>
      transport_events (snd (dispatch_one e u c n i job w)) = transport_events w @ [Sleep 3])
   \<and> (\<not> sublist ''example'' (recipient_of job) \<longrightarrow>
      (\<exists>m. transport_events (snd (dispatch_one e u c n i job w))
              = transport_events w @ [Sleep 20, Smtp_send (app_password u) m]
            \<and> msg_to m = recipient_of job \<and> msg_from m = sender_email u))"
  using dispatch_one_sandbox(2) dispatch_one_real(2) by blast

lemma sublist_examples:
  "sublist ''example'' ''ceo@example-labs.io''" "\<not> sublist ''example'' ''jobs@initech.org''"
  "sublist ''example'' ''hr@example.com''"
  by code_simp+

lemma recipient_of_examples:
  "recipient_of sandbox_job = ''ceo@example-labs.io''" "recipient_of real_job = ''jobs@initech.org''"
  by (simp_all add: recipient_of_def sandbox_job_def real_job_def)

theorem dispatch_delay_witness:
  "sublist ''example'' (recipient_of sandbox_job)
   \<and> transport_events (snd (dispatch_one offline_env demo_ui demo_profile 2 0 sandbox_job
        new_session)) = [Sleep 3]
   \<and> \<not> sublist ''example'' (recipient_of real_job)
   \<and> (\<exists>m. transport_events (snd (dispatch_one offline_env demo_ui demo_profile 2 1 real_job
        new_session)) = [Sleep 20, Smtp_send ''secret'' m]
        \<and> msg_to m = ''jobs@initech.org'')"
proof -
  have s: "sublist ''example'' (recipient_of sandbox_job)"
    and r: "\<not> sublist ''example'' (recipient_of real_job)"
    by (simp_all add: recipient_of_examples sublist_examples)
  have t: "transport_events new_session = []"
    by (simp add: transport_events_def new_session_def)
  have p: "app_password demo_ui = ''secret''"
    by (simp add: demo_ui_def)
  show ?thesis
    using s r dispatch_delay [of sandbox_job offline_env demo_ui demo_profile 2 0 new_session]
      dispatch_delay [of real_job offline_env demo_ui demo_profile 2 1 new_session]
    by (auto simp: t p recipient_of_examples)
qed

section \<open>The sandbox test\<close>

text \<open>
  C10. A dispatch is simulated exactly when "example" occurs somewhere in the
  recipient, which is the opportunity's \<open>contact_email\<close> (or \<open>hr@example.com\<close> when the
  key is absent). A simulated dispatch submits nothing to the transport, succeeds, and
  adds one to \<open>successful_dispatches\<close>.
\<close>

theorem sandbox_iff_example:
  "(sublist ''example'' (recipient_of job)
      \<longleftrightarrow> transport_events (snd (dispatch_one e u c n i job w)) = transport_events w @ [Sleep 3])
   \<and> (sublist ''example'' (recipient_of job) \<longrightarrow>
        fst (dispatch_one e u c n i job w)
        \<and> successful_dispatches (snd (dispatch_one e u c n i job w))
            = successful_dispatches w + 1)
   \<and> recipient_of job = (case contact_email job of None \<Rightarrow> ''hr@example.com'' | Some r \<Rightarrow> r)"
proof (intro conjI impI iffI)
  assume "sublist ''example'' (recipient_of job)"
  then show "transport_events (snd (dispatch_one e u c n i job w))
               = transport_events w @ [Sleep 3]"
    by (rule dispatch_one_sandbox(2))
next
  assume a: "transport_events (snd (dispatch_one e u c n i job w))
               = transport_events w @ [Sleep 3]"
  show "sublist ''example'' (recipient_of job)"
  proof (rule ccontr)
    assume "\<not> sublist ''example'' (recipient_of job)"
    from dispatch_one_real(2) [OF this, of e u c n i w] a show False
      by auto
  qed
next
  assume s: "sublist ''example'' (recipient_of job)"
  then show "fst (dispatch_one e u c n i job w)"
    by (rule dispatch_one_sandbox(1))
  with s show "successful_dispatches (snd (dispatch_one e u c n i job w))
                 = successful_dispatches w + 1"
    by simp
next
  show "recipient_of job = (case contact_email job of None \<Rightarrow> ''hr@example.com'' | Some r \<Rightarrow> r)"
    by (simp add: recipient_of_def)
qed

theorem sandbox_iff_example_witness:
  "contact_email sandbox_job = Some ''ceo@example-labs.io''
   \<and> sublist ''example'' (recipient_of sandbox_job)
   \<and> fst (dispatch_one refusing_env demo_ui demo_profile 1 0 sandbox_job new_session)
   \<and> successful_dispatches
        (snd (dispatch_one refusing_env demo_ui demo_profile 1 0 sandbox_job new_session)) = 1
   \<and> transport_events
        (snd (dispatch_one refusing_env demo_ui demo_profile 1 0 sandbox_job new_session))
       = [Sleep 3]"
proof -
  have s: "sublist ''example'' (recipient_of sandbox_job)"
    by (simp add: recipient_of_examples sublist_examples)
  have t: "transport_events new_session = []" "successful_dispatches new_session = 0"
    by (simp_all add: transport_events_def new_session_def)
  show ?thesis
    using s sandbox_iff_example [of sandbox_job refusing_env demo_ui demo_profile 1 0 new_session]
    by (simp add: t sandbox_job_def)
qed

section \<open>The dispatch loop\<close>

lemma dispatch_loop_length: "length (fst (dispatch_loop e u c n i jobs w)) = length jobs"
  by (induction jobs arbitrary: i w) (simp_all add: case_prod_unfold Let_def)

lemma dispatch_loop_fields [simp]:
  "jobs_identified (snd (dispatch_loop e u c n i jobs w)) = jobs_identified w"
  "successful_dispatches (snd (dispatch_loop e u c n i jobs w))
     = successful_dispatches w + length (filter id (fst (dispatch_loop e u c n i jobs w)))"
  "gemini_api_key (snd (dispatch_loop e u c n i jobs w)) = gemini_api_key w"
  "pdf_bytes (snd (dispatch_loop e u c n i jobs w)) = pdf_bytes w"
  "pdf_filename (snd (dispatch_loop e u c n i jobs w)) = pdf_filename w"
  by (induction jobs arbitrary: i w) (simp_all add: case_prod_unfold Let_def)

lemma dispatch_loop_fallbacks:
  "api_fallbacks w \<le> api_fallbacks (snd (dispatch_loop e u c n i jobs w))"
proof (induction jobs arbitrary: i w)
  case Nil
  show ?case by simp
next
  case (Cons job jobs)
  have "api_fallbacks w \<le> api_fallbacks (snd (dispatch_one e u c n i job w))"
    by (rule dispatch_one_fallbacks)
  also have "\<dots> \<le> api_fallbacks (snd (dispatch_loop e u c n (Suc i) jobs
                                        (snd (dispatch_one e u c n i job w))))"
    by (rule Cons.IH)
  finally show ?case
    by (simp add: case_prod_unfold Let_def)
qed

lemma dispatch_loop_append:
  "dispatch_loop e u c n i (xs @ ys) w =
     (fst (dispatch_loop e u c n i xs w)
        @ fst (dispatch_loop e u c n (i + length xs) ys (snd (dispatch_loop e u c n i xs w))),
      snd (dispatch_loop e u c n (i + length xs) ys (snd (dispatch_loop e u c n i xs w))))"
  by (induction xs arbitrary: i w) (simp_all add: case_prod_unfold Let_def)

lemma dispatch_loop_step:
  assumes "k < length jobs"
  shows "dispatch_loop e u c n 0 (take (Suc k) jobs) w =
     (fst (dispatch_loop e u c n 0 (take k jobs) w)
        @ [fst (dispatch_one e u c n k (jobs ! k) (snd (dispatch_loop e u c n 0 (take k jobs) w)))],
      snd (dispatch_one e u c n k (jobs ! k) (snd (dispatch_loop e u c n 0 (take k jobs) w))))"
proof -
  have "take (Suc k) jobs = take k jobs @ [jobs ! k]"
    using assms by (rule take_Suc_conv_app_nth)
  then show ?thesis
    using assms by (simp add: dispatch_loop_append case_prod_unfold Let_def min_def)
qed





section \<open>The counters over a run\<close>

lemma those_length: "those xs = Some ys \<Longrightarrow> length ys = length xs"
  by (induction xs arbitrary: ys) (auto split: option.splits)

lemma opportunities_of_length:
  "opportunities_of v = Some jobs \<Longrightarrow> \<exists>vs. v = JArr vs \<and> length vs = length jobs"
  by (cases v) (auto dest: those_length)

lemma intelligent_parsing_fields [simp]:
  "jobs_identified (snd (intelligent_parsing e u f w)) = jobs_identified w"
  "successful_dispatches (snd (intelligent_parsing e u f w)) = successful_dispatches w"
  "api_fallbacks (snd (intelligent_parsing e u f w)) = api_fallbacks w"
  "gemini_api_key (snd (intelligent_parsing e u f w)) = gemini_api_key w"
  "pdf_bytes (snd (intelligent_parsing e u f w)) = pdf_bytes w"
  "pdf_filename (snd (intelligent_parsing e u f w)) = pdf_filename w"
  by (simp_all add: intelligent_parsing_def Let_def case_prod_unfold
      split: outcome.splits json.splits option.splits)

lemma discovery_fields [simp]:
  "successful_dispatches (snd (discovery e u c w)) = successful_dispatches w"
  "api_fallbacks (snd (discovery e u c w)) = api_fallbacks w"
  "gemini_api_key (snd (discovery e u c w)) = gemini_api_key w"
  "pdf_bytes (snd (discovery e u c w)) = pdf_bytes w"
  "pdf_filename (snd (discovery e u c w)) = pdf_filename w"
  by (simp_all add: discovery_def Let_def case_prod_unfold
      split: outcome.splits option.splits)

lemma discovery_Returned:
  assumes "fst (discovery e u c w) = Returned jobs"
  shows "jobs_identified (snd (discovery e u c w)) = length jobs"
    "\<exists>vs. mock_jobs (snd (discovery e u c w)) = Some (JArr vs) \<and> length vs = length jobs"
  using assms
  by (auto simp: discovery_def Let_def case_prod_unfold
      split: outcome.splits option.splits dest: opportunities_of_length)

lemma post_process_fields [simp]:
  "jobs_identified (post_process e c w) = jobs_identified w"
  "successful_dispatches (post_process e c w) = successful_dispatches w"
  "api_fallbacks (post_process e c w) = api_fallbacks w"
  "gemini_api_key (post_process e c w) = gemini_api_key w"
  "mock_jobs (post_process e c w) = mock_jobs w"
  "workflow_completed (post_process e c w)"
  by (simp_all add: post_process_def Let_def case_prod_unfold)

lemma dispatch_loop_mock_jobs [simp]:
  "mock_jobs (snd (dispatch_loop e u c n i jobs w)) = mock_jobs w"
proof -
  have one: "mock_jobs (snd (dispatch_one e u c n i job w)) = mock_jobs w" for i job w
    by (simp add: dispatch_one_def generate_cover_letter_def attach_and_dispatch_def
        Let_def case_prod_unfold)
  show ?thesis
    by (induction jobs arbitrary: i w) (simp_all add: case_prod_unfold Let_def one)
qed

lemma run_workflow_Completed:
  assumes "run_workflow e u f w = (Returned Completed, w')"
  defines "w2 \<equiv> append_log e ''Initializing Agentic AI Workflow...'' False False
                  (w\<lparr>workflow_started := True, workflow_completed := False, logs := []\<rparr>)"
  defines "w3 \<equiv> snd (intelligent_parsing e u f w2)"
  shows "\<exists>c jobs.
           fst (intelligent_parsing e u f w2) = Returned (Some c)
           \<and> fst (discovery e u c w3) = Returned jobs
           \<and> w' = post_process e c
                    (snd (dispatch_loop e u c (length jobs) 0 jobs (snd (discovery e u c w3))))"
  using assms(1) unfolding w2_def w3_def
  by (auto simp: run_workflow_def Let_def case_prod_unfold
      split: if_splits prod.splits outcome.splits option.splits)

text \<open>
  C5, as amended. From discovery on, \<open>jobs_identified\<close> is the number of discovered
  opportunities; \<open>api_fallbacks\<close> never decreases; and \<open>successful_dispatches\<close> grows by at
  most one for each opportunity handled, so at every point it exceeds its value at the
  start of the run by at most \<open>jobs_identified\<close>. The counters are not reset when a run
  starts.
\<close>

theorem metrics_over_a_run:
  "(fst (discovery e u c w) = Returned jobs \<longrightarrow>
      jobs_identified (snd (discovery e u c w)) = length jobs
      \<and> successful_dispatches (snd (discovery e u c w)) = successful_dispatches w
      \<and> api_fallbacks (snd (discovery e u c w)) = api_fallbacks w
      \<and> (\<forall>k \<le> length jobs.
            jobs_identified
              (snd (dispatch_loop e u c (length jobs) 0 (take k jobs) (snd (discovery e u c w))))
              = length jobs
            \<and> successful_dispatches
                (snd (dispatch_loop e u c (length jobs) 0 (take k jobs) (snd (discovery e u c w))))
                \<le> successful_dispatches w + k
            \<and> api_fallbacks w
                \<le> api_fallbacks
                    (snd (dispatch_loop e u c (length jobs) 0 (take k jobs)
                            (snd (discovery e u c w)))))
      \<and> (\<forall>k < length jobs.
            api_fallbacks
              (snd (dispatch_loop e u c (length jobs) 0 (take k jobs) (snd (discovery e u c w))))
            \<le> api_fallbacks
                (snd (dispatch_loop e u c (length jobs) 0 (take (Suc k) jobs)
                        (snd (discovery e u c w))))))
   \<and> (run_workflow e u f w0 = (Returned Completed, w') \<longrightarrow>
        (\<exists>vs. mock_jobs w' = Some (JArr vs) \<and> jobs_identified w' = length vs)
        \<and> successful_dispatches w' \<le> successful_dispatches w0 + jobs_identified w'
        \<and> api_fallbacks w0 \<le> api_fallbacks w')"
proof (intro conjI impI allI)
  assume d: "fst (discovery e u c w) = Returned jobs"
  show "jobs_identified (snd (discovery e u c w)) = length jobs"
    by (rule discovery_Returned(1) [OF d])
  show "successful_dispatches (snd (discovery e u c w)) = successful_dispatches w"
    by simp
  show "api_fallbacks (snd (discovery e u c w)) = api_fallbacks w"
    by simp
  fix k
  show "jobs_identified
          (snd (dispatch_loop e u c (length jobs) 0 (take k jobs) (snd (discovery e u c w))))
          = length jobs"
    by (simp add: discovery_Returned(1) [OF d])
  show "successful_dispatches
          (snd (dispatch_loop e u c (length jobs) 0 (take k jobs) (snd (discovery e u c w))))
          \<le> successful_dispatches w + k" if "k \<le> length jobs"
  proof -
    have "length (filter id (fst (dispatch_loop e u c (length jobs) 0 (take k jobs)
            (snd (discovery e u c w))))) \<le> k"
      using length_filter_le [of id "fst (dispatch_loop e u c (length jobs) 0 (take k jobs)
            (snd (discovery e u c w)))"] that
      by (simp add: dispatch_loop_length)
    then show ?thesis by simp
  qed
  show "api_fallbacks w
          \<le> api_fallbacks
              (snd (dispatch_loop e u c (length jobs) 0 (take k jobs)
                      (snd (discovery e u c w))))"
    using dispatch_loop_fallbacks [of "snd (discovery e u c w)" e u c "length jobs" 0
        "take k jobs"]
    by simp
  show "api_fallbacks
          (snd (dispatch_loop e u c (length jobs) 0 (take k jobs) (snd (discovery e u c w))))
        \<le> api_fallbacks
            (snd (dispatch_loop e u c (length jobs) 0 (take (Suc k) jobs)
                    (snd (discovery e u c w))))" if "k < length jobs"
    using that by (simp add: dispatch_loop_step dispatch_one_fallbacks)
next
  assume r: "run_workflow e u f w0 = (Returned Completed, w')"
  from run_workflow_Completed [OF r] obtain c' jobs' w3 where
    w3: "w3 = snd (intelligent_parsing e u f
                 (append_log e ''Initializing Agentic AI Workflow...'' False False
                    (w0\<lparr>workflow_started := True, workflow_completed := False, logs := []\<rparr>)))"
    and d: "fst (discovery e u c' w3) = Returned jobs'"
    and w': "w' = post_process e c'
                    (snd (dispatch_loop e u c' (length jobs') 0 jobs' (snd (discovery e u c' w3))))"
    by auto
  have start: "successful_dispatches w3 = successful_dispatches w0"
    "api_fallbacks w3 = api_fallbacks w0"
    by (simp_all add: w3)
  show "\<exists>vs. mock_jobs w' = Some (JArr vs) \<and> jobs_identified w' = length vs"
    using discovery_Returned [OF d] by (auto simp: w')
  show "successful_dispatches w' \<le> successful_dispatches w0 + jobs_identified w'"
    using length_filter_le [of id "fst (dispatch_loop e u c' (length jobs') 0 jobs'
            (snd (discovery e u c' w3)))"]
    by (simp add: w' start discovery_Returned(1) [OF d] dispatch_loop_length)
  show "api_fallbacks w0 \<le> api_fallbacks w'"
    using dispatch_loop_fallbacks [of "snd (discovery e u c' w3)" e u c' "length jobs'" 0 jobs']
    by (simp add: w' start)
qed

section \<open>A run without a credential\<close>

lemma offline_provider:
  "gemini_api_key w = None \<Longrightarrow> provider_call offline_env p j w = None"
  by (simp add: provider_call_simps(1) offline_env_def)

lemma offline_pdf: "extract_text_from_pdf offline_env ''resume text'' w = (''resume text\<newline>'', w)"
  by (simp add: extract_text_result pdf_text_def offline_env_def)

lemma offline_parsing:
  assumes "gemini_api_key w = None"
  shows "fst (intelligent_parsing offline_env demo_ui ''resume text'' w)
           = Returned (Some offline_profile)"
proof -
  have "fst (parse_resume_agent offline_env t w') = Returned parse_resume_fallback"
    if "gemini_api_key w' = None" for t w'
    using that by (simp add: parse_resume_result offline_provider)
  moreover have "profile_of
      [(''role'', JStr ''Software Engineer''),
       (''skills'', JArr [JStr ''Python'', JStr ''Problem Solving'', JStr ''Communication'']),
       (''experience_level'', JStr ''Mid'')] = Some offline_profile"
    by (simp add: profile_of_def dict_get_def offline_profile_def)
  ultimately show ?thesis
    using assms
    by (simp add: intelligent_parsing_def Let_def case_prod_unfold offline_pdf
        parse_resume_fallback_def demo_ui_def)
qed

lemma fallback_opportunities:
  "opportunities_of (job_discovery_fallback role) =
     Some [\<lparr>company_name = Some ''TechNova Solutions'',
             job_title = Some (''Senior '' @ role),
             contact_email = Some ''careers@technova.example.com''\<rparr>,
           \<lparr>company_name = Some ''Quantum Innovations'',
             job_title = Some (''Lead '' @ role),
             contact_email = Some ''hr@quantuminnovations.example.com''\<rparr>,
           \<lparr>company_name = Some ''CloudNine Systems'',
             job_title = Some role,
             contact_email = Some ''jobs@cloudninesystems.example.com''\<rparr>]"
  by (simp add: job_discovery_fallback_def str_field_def)

lemma offline_discovery:
  assumes "gemini_api_key w = None"
  shows "fst (discovery offline_env u c w) = Returned (the (opportunities_of (job_discovery_fallback (role_text c))))"
  using assms
  by (simp add: discovery_def Let_def case_prod_unfold job_discovery_result offline_provider
      fallback_opportunities)

lemma fallback_recipients:
  "sublist ''example'' ''careers@technova.example.com''"
  "sublist ''example'' ''hr@quantuminnovations.example.com''"
  "sublist ''example'' ''jobs@cloudninesystems.example.com''"
  by code_simp+

lemma offline_loop:
  "fst (dispatch_loop e u c n i (the (opportunities_of (job_discovery_fallback role))) w)
     = [True, True, True]"
  by (simp add: fallback_opportunities case_prod_unfold Let_def dispatch_one_sandbox(1)
      recipient_of_def fallback_recipients)

lemma offline_run:
  assumes "gemini_api_key w = None"
  shows "fst (run_workflow offline_env demo_ui ''resume text'' w) = Returned Completed"
    "successful_dispatches (snd (run_workflow offline_env demo_ui ''resume text'' w))
       = successful_dispatches w + 3"
    "jobs_identified (snd (run_workflow offline_env demo_ui ''resume text'' w)) = 3"
    "gemini_api_key (snd (run_workflow offline_env demo_ui ''resume text'' w)) = None"
proof -
  define w2 where "w2 = append_log offline_env ''Initializing Agentic AI Workflow...'' False False
     (w\<lparr>workflow_started := True, workflow_completed := False, logs := []\<rparr>)"
  define w3 where "w3 = snd (intelligent_parsing offline_env demo_ui ''resume text'' w2)"
  define jobs where "jobs = the (opportunities_of (job_discovery_fallback (role_text offline_profile)))"
  define w4 where "w4 = snd (discovery offline_env demo_ui offline_profile w3)"
  have k2: "gemini_api_key w2 = None" "successful_dispatches w2 = successful_dispatches w"
    using assms by (simp_all add: w2_def)
  have p: "fst (intelligent_parsing offline_env demo_ui ''resume text'' w2)
             = Returned (Some offline_profile)"
    by (rule offline_parsing [OF k2(1)])
  have k3: "gemini_api_key w3 = None" "successful_dispatches w3 = successful_dispatches w"
    using k2 by (simp_all add: w3_def)
  have d: "fst (discovery offline_env demo_ui offline_profile w3) = Returned jobs"
    unfolding jobs_def by (rule offline_discovery [OF k3(1)])
  have k4: "gemini_api_key w4 = None" "successful_dispatches w4 = successful_dispatches w"
    "jobs_identified w4 = length jobs"
    using k3 discovery_Returned(1) [OF d] by (simp_all add: w4_def)
  have n: "length jobs = 3"
    by (simp add: jobs_def fallback_opportunities)
  have run: "run_workflow offline_env demo_ui ''resume text'' w =
      (Returned Completed,
       post_process offline_env offline_profile
         (snd (dispatch_loop offline_env demo_ui offline_profile (length jobs) 0 jobs w4)))"
  proof -
    have c: "sender_email demo_ui \<noteq> [] \<and> app_password demo_ui \<noteq> []"
      by (simp add: demo_ui_def)
    have ip: "intelligent_parsing offline_env demo_ui ''resume text'' w2
                = (Returned (Some offline_profile), w3)"
      using p by (simp add: w3_def prod_eq_iff)
    have di: "discovery offline_env demo_ui offline_profile w3 = (Returned jobs, w4)"
      using d by (simp add: w4_def prod_eq_iff)
    show ?thesis
      using c by (simp add: run_workflow_def Let_def w2_def [symmetric] ip di case_prod_unfold)
  qed
  have l: "fst (dispatch_loop offline_env demo_ui offline_profile (length jobs) 0 jobs w4)
             = [True, True, True]"
    unfolding jobs_def by (rule offline_loop)
  show "fst (run_workflow offline_env demo_ui ''resume text'' w) = Returned Completed"
    by (simp add: run)
  show "successful_dispatches (snd (run_workflow offline_env demo_ui ''resume text'' w))
       = successful_dispatches w + 3"
    by (simp add: run l k4)
  show "jobs_identified (snd (run_workflow offline_env demo_ui ''resume text'' w)) = 3"
    by (simp add: run k4 n)
  show "gemini_api_key (snd (run_workflow offline_env demo_ui ''resume text'' w)) = None"
    by (simp add: run k4)
qed

lemma render_logs_fields [simp]:
  "jobs_identified (render_logs w) = jobs_identified w"
  "successful_dispatches (render_logs w) = successful_dispatches w"
  "api_fallbacks (render_logs w) = api_fallbacks w"
  "gemini_api_key (render_logs w) = gemini_api_key w"
  by (simp_all add: render_logs_def Let_def)

lemma offline_main:
  assumes "gemini_api_key w = None"
  shows "successful_dispatches (snd (main offline_env demo_ui w)) = successful_dispatches w + 3"
    "jobs_identified (snd (main offline_env demo_ui w)) = 3"
    "gemini_api_key (snd (main offline_env demo_ui w)) = None"
proof -
  define w3 where "w3 = (if pdf_filename w \<noteq> Some ''cv.pdf''
      then w\<lparr>pdf_bytes := Some ''resume text'', pdf_filename := Some ''cv.pdf'',
              parsed_resume := None, workflow_started := False\<rparr>
      else w)"
  have k: "gemini_api_key w3 = None" "successful_dispatches w3 = successful_dispatches w"
    using assms by (simp_all add: w3_def)
  have m: "main offline_env demo_ui w =
      (Returned (), show_results (snd (run_workflow offline_env demo_ui ''resume text'' w3)))"
  proof -
    obtain w4 where r: "run_workflow offline_env demo_ui ''resume text'' w3
                          = (Returned Completed, w4)"
      using offline_run(1) [OF k(1)]
      by (cases "run_workflow offline_env demo_ui ''resume text'' w3") simp
    have "style_css offline_env = Some []" "secrets_api_key offline_env = None"
      by (simp_all add: offline_env_def)
    moreover have "api_key_input demo_ui = []" "start_clicked demo_ui"
      "uploaded_file demo_ui = Some (''cv.pdf'', ''resume text'')"
      by (simp_all add: demo_ui_def)
    ultimately show ?thesis
      by (simp add: main_def Let_def w3_def [symmetric] r)
  qed
  show "successful_dispatches (snd (main offline_env demo_ui w)) = successful_dispatches w + 3"
    by (simp add: m show_results_def offline_run [OF k(1)] k)
  show "jobs_identified (snd (main offline_env demo_ui w)) = 3"
    by (simp add: m show_results_def offline_run [OF k(1)])
  show "gemini_api_key (snd (main offline_env demo_ui w)) = None"
    by (simp add: m show_results_def offline_run [OF k(1)])
qed

theorem metrics_over_a_run_witness:
  "run_workflow offline_env demo_ui ''resume text'' new_session
     = (Returned Completed, snd (run_workflow offline_env demo_ui ''resume text'' new_session))
   \<and> jobs_identified (snd (run_workflow offline_env demo_ui ''resume text'' new_session)) = 3
   \<and> successful_dispatches (snd (run_workflow offline_env demo_ui ''resume text'' new_session))
       \<le> successful_dispatches new_session
          + jobs_identified (snd (run_workflow offline_env demo_ui ''resume text'' new_session))
   \<and> api_fallbacks new_session
       \<le> api_fallbacks (snd (run_workflow offline_env demo_ui ''resume text'' new_session))"
proof -
  have k: "gemini_api_key new_session = None"
    by (simp add: new_session_def)
  have r: "run_workflow offline_env demo_ui ''resume text'' new_session
     = (Returned Completed, snd (run_workflow offline_env demo_ui ''resume text'' new_session))"
    using offline_run(1) [OF k] by (simp add: prod_eq_iff)
  show ?thesis
    using r offline_run(3) [OF k]
      metrics_over_a_run [of offline_env demo_ui demo_profile new_session "[]"
        "''resume text''" new_session
        "snd (run_workflow offline_env demo_ui ''resume text'' new_session)"]
    by simp
qed

text \<open>
  The claim as stated fails on the second run of a session: the first run leaves
  \<open>successful_dispatches\<close> at 3, the second raises it to 6, while \<open>jobs_identified\<close> is 3.
\<close>

theorem second_run_counterexample:
  "successful_dispatches second_run = 6 \<and> jobs_identified second_run = 3
   \<and> \<not> successful_dispatches second_run \<le> jobs_identified second_run"
proof -
  have k: "gemini_api_key new_session = None" "successful_dispatches new_session = 0"
    by (simp_all add: new_session_def)
  have f: "gemini_api_key first_run = None" "successful_dispatches first_run = 3"
    using offline_main [OF k(1)] k(2) by (simp_all add: first_run_def)
  show ?thesis
    using offline_main [OF f(1)] f(2) by (simp add: second_run_def)
qed

end
